theory Spec2Isabelle
  imports Main "HOL-Library.Finite_Map" "HOL-Library.Multiset" "HOL-Library.Signed_Division"
begin

section \<open>The event store of gpud: pkg/eventstore/database.go\<close>

subsection \<open>Data model\<close>

text \<open>
  Errors are values. \<open>Wrapped ctx e\<close> is Go's \<^verbatim>\<open>fmt.Errorf(ctx + ": %w", e)\<close>;
  \<open>InvalidJSON s\<close> is \<^verbatim>\<open>fmt.Errorf("invalid JSON: %q", s)\<close>; \<open>ErrNoRows\<close> is
  \<^verbatim>\<open>sql.ErrNoRows\<close>; \<open>EngineError\<close> is any other failure of the SQL driver
  (cancelled context, closed handle, missing table, syntax error); \<open>JSONError\<close> is a failure
  of \<^verbatim>\<open>encoding/json\<close>.
\<close>

datatype error =
    ErrNoRows
  | EngineError string
  | JSONError string
  | InvalidJSON string
  | Wrapped string error

text \<open>
  A Go \<^verbatim>\<open>map[string]string\<close> is a finite map; the nil map is \<open>None\<close>, a non-nil
  map (also the empty one) is \<open>Some m\<close>. \<^verbatim>\<open>len\<close> and lookup treat the nil map as empty.
\<close>

type_synonym gomap = "(string, string) fmap option"

definition entries :: "gomap \<Rightarrow> (string, string) fmap" where
  "entries m = (case m of None \<Rightarrow> fmempty | Some f \<Rightarrow> f)"

definition len :: "gomap \<Rightarrow> nat" where
  "len m = fcard (fmdom (entries m))"

text \<open>
  \<^verbatim>\<open>apiv1.Event\<close>, with the fields the store reads and writes. The store only ever
  uses \<^verbatim>\<open>ev.Time.Unix()\<close> and rebuilds \<^verbatim>\<open>time.Unix(timestamp, 0)\<close>, so \<open>Time\<close> is
  the Unix time in seconds (an int64 in Go; it is only compared, never computed with).
  The suggested-actions struct is opaque to the store: a type parameter.
\<close>

record 'sa Event =
  Time :: int
  Name :: string
  Type :: string
  Message :: string
  DeprecatedExtraInfo :: gomap
  DeprecatedSuggestedActions :: "'sa option"

text \<open>
  A row of the table made by \<^verbatim>\<open>createTable\<close>: timestamp INTEGER NOT NULL, name and
  type TEXT NOT NULL, message, extra_info and suggested_actions nullable TEXT
  (\<open>None\<close> is SQL NULL, what Go scans into a \<^verbatim>\<open>sql.NullString\<close> with \<^verbatim>\<open>Valid = false\<close>).
\<close>

record row =
  col_timestamp :: int
  col_name :: string
  col_type :: string
  col_message :: "string option"
  col_extra_info :: "string option"
  col_suggested_actions :: "string option"

text \<open>
  \<^verbatim>\<open>encoding/json\<close> is a library outside the repository: \<^verbatim>\<open>json.Marshal\<close> and
  \<^verbatim>\<open>json.Unmarshal\<close> at the two payload types are parameters of the model.
\<close>

record 'sa codec =
  marshalExtraInfo :: "(string, string) fmap \<Rightarrow> error + string"
  unmarshalExtraInfo :: "string \<Rightarrow> error + (string, string) fmap"
  marshalSuggestedActions :: "'sa \<Rightarrow> error + string"
  unmarshalSuggestedActions :: "string \<Rightarrow> error + 'sa"

subsection \<open>compareEvent\<close>

text \<open>
  \<^verbatim>\<open>
  func compareEvent(eventA, eventB apiv1.Event) bool {
      if len(eventA.DeprecatedExtraInfo) != len(eventB.DeprecatedExtraInfo) { return false }
      for key, value := range eventA.DeprecatedExtraInfo {
          if val, ok := eventB.DeprecatedExtraInfo[key]; !ok || val != value { return false }
      }
      return true
  }
  \<close>
  The range loop visits every entry of A's map once, in an order Go leaves open, and
  returns false at the first entry that fails the test: it returns true exactly when
  every entry passes, which is \<open>fmpred\<close>.
\<close>

definition entry_ok :: "gomap \<Rightarrow> string \<Rightarrow> string \<Rightarrow> bool" where
  "entry_ok b key val =
     (case fmlookup (entries b) key of None \<Rightarrow> False | Some val' \<Rightarrow> val' = val)"

definition compareEvent :: "'sa Event \<Rightarrow> 'sb Event \<Rightarrow> bool" where
  "compareEvent eventA eventB =
     (if len (DeprecatedExtraInfo eventA) \<noteq> len (DeprecatedExtraInfo eventB) then False
      else fmpred (entry_ok (DeprecatedExtraInfo eventB)) (entries (DeprecatedExtraInfo eventA)))"

subsection \<open>defaultTableName\<close>

definition schemaVersion :: string where
  "schemaVersion = ''v0_4_0''"

text \<open>
  \<^verbatim>\<open>strings.ReplaceAll(s, old, new)\<close> for a non-empty \<open>old\<close>: the non-overlapping
  occurrences of \<open>old\<close> are replaced from left to right. (The source only calls it
  with \<open>old\<close> one or two bytes long; for an empty \<open>old\<close> this model returns \<open>s\<close>.)
\<close>

function ReplaceAll :: "string \<Rightarrow> string \<Rightarrow> string \<Rightarrow> string" where
  "ReplaceAll [] old new = []"
| "ReplaceAll (c # cs) old new =
     (if old \<noteq> [] \<and> take (length old) (c # cs) = old
      then new @ ReplaceAll (drop (length old) (c # cs)) old new
      else c # ReplaceAll cs old new)"
  by pat_completeness auto
termination
  by (relation "measure (\<lambda>(s, old, new). length s)") auto

text \<open>
  \<^verbatim>\<open>strings.ToLower\<close> on bytes: the ASCII letters A-Z go to a-z, every other byte is
  kept. This is what Go does on ASCII strings; Go also lowers non-ASCII letters, which
  no statement below relies on.
\<close>

definition toLowerByte :: "char \<Rightarrow> char" where
  "toLowerByte c =
     (let n = (of_char c :: nat) in if 65 \<le> n \<and> n \<le> 90 then char_of (n + 32) else c)"

definition ToLower :: "string \<Rightarrow> string" where
  "ToLower s = map toLowerByte s"

definition defaultTableName :: "string \<Rightarrow> string" where
  "defaultTableName componentName =
     (let c = ReplaceAll componentName '' '' ''_'';
          c = ReplaceAll c ''-'' ''_'';
          c = ReplaceAll c ''__'' ''_'';
          c = ToLower c
      in ''components_'' @ c @ ''_events_'' @ schemaVersion)"

subsection \<open>The SQL engine\<close>

text \<open>
  The database is a map from table names to the rows of each table, in the order a scan
  of the table yields them (an INSERT adds at the end). The three indexes only change how
  fast a scan is, so they are left out. Every driver call takes \<open>fault\<close>: \<open>Some e\<close> when
  the engine refuses this call with error \<open>e\<close> (cancelled or expired context, closed
  handle, I/O error, a table name that is not valid SQL), \<open>None\<close> when it executes the
  statement.
\<close>

type_synonym sqldb = "string \<rightharpoonup> row list"

definition no_such_table :: error where
  "no_such_table = EngineError ''no such table''"

text \<open>\<^verbatim>\<open>SELECT ... FROM t WHERE cond\<close>: the rows passing \<open>cond\<close>, in scan order.\<close>

definition QueryContext :: "error option \<Rightarrow> sqldb \<Rightarrow> string \<Rightarrow> (row \<Rightarrow> bool) \<Rightarrow> error + row list" where
  "QueryContext fault db tableName cond =
     (case fault of
        Some e \<Rightarrow> Inl e
      | None \<Rightarrow> (case db tableName of
                  None \<Rightarrow> Inl no_such_table
                | Some rows \<Rightarrow> Inr (filter cond rows)))"

text \<open>
  \<^verbatim>\<open>ORDER BY timestamp DESC\<close>. SQLite answers it from the index on the timestamp
  column, which keeps rows with equal timestamps in insertion order, read backwards: the
  rows come by descending timestamp, and rows with equal timestamps newest-inserted first.
  That is the stable ascending sort, reversed.
\<close>

definition order_by_timestamp_desc :: "row list \<Rightarrow> row list" where
  "order_by_timestamp_desc rows = rev (sort_key col_timestamp rows)"

text \<open>
  \<^verbatim>\<open>db.QueryRowContext\<close> of \<^verbatim>\<open>SELECT ... ORDER BY timestamp DESC LIMIT 1\<close>: a
  \<^verbatim>\<open>*sql.Row\<close> holds the row or the error that \<^verbatim>\<open>Scan\<close> will report,
  \<^verbatim>\<open>sql.ErrNoRows\<close> when the result is empty. Among the rows with the greatest
  timestamp it is the one inserted last.
\<close>

definition QueryRowContext_latest :: "error option \<Rightarrow> sqldb \<Rightarrow> string \<Rightarrow> error + row" where
  "QueryRowContext_latest fault db tableName =
     (case fault of
        Some e \<Rightarrow> Inl e
      | None \<Rightarrow> (case db tableName of
                  None \<Rightarrow> Inl no_such_table
                | Some rows \<Rightarrow> (case order_by_timestamp_desc rows of
                                 [] \<Rightarrow> Inl ErrNoRows
                               | r # _ \<Rightarrow> Inr r)))"

text \<open>\<^verbatim>\<open>INSERT INTO t (...) VALUES (...)\<close>.\<close>

definition ExecInsert :: "error option \<Rightarrow> sqldb \<Rightarrow> string \<Rightarrow> row \<Rightarrow> sqldb \<times> error option" where
  "ExecInsert fault db tableName r =
     (case fault of
        Some e \<Rightarrow> (db, Some e)
      | None \<Rightarrow> (case db tableName of
                  None \<Rightarrow> (db, Some no_such_table)
                | Some rows \<Rightarrow> (db(tableName \<mapsto> rows @ [r]), None)))"

text \<open>
  \<^verbatim>\<open>DELETE FROM t WHERE cond\<close>, with the number of rows affected
  (\<^verbatim>\<open>RowsAffected\<close> of the sqlite driver returns the stored count and no error).
\<close>

definition ExecDelete :: "error option \<Rightarrow> sqldb \<Rightarrow> string \<Rightarrow> (row \<Rightarrow> bool) \<Rightarrow> sqldb \<times> (error + nat)" where
  "ExecDelete fault db tableName cond =
     (case fault of
        Some e \<Rightarrow> (db, Inl e)
      | None \<Rightarrow> (case db tableName of
                  None \<Rightarrow> (db, Inl no_such_table)
                | Some rows \<Rightarrow>
                    (db(tableName \<mapsto> filter (\<lambda>r. \<not> cond r) rows),
                     Inr (length (filter cond rows)))))"

text \<open>SQL's \<^verbatim>\<open>NULLIF(x, y)\<close>: NULL when \<open>x = y\<close>, else \<open>x\<close>.\<close>

definition NULLIF :: "string \<Rightarrow> string \<Rightarrow> string option" where
  "NULLIF x y = (if x = y then None else Some x)"

text \<open>
  \<^verbatim>\<open>createTable\<close>: one transaction of CREATE TABLE IF NOT EXISTS and three CREATE INDEX
  IF NOT EXISTS; any error rolls everything back.
\<close>

definition createTable :: "error option \<Rightarrow> sqldb \<Rightarrow> string \<Rightarrow> sqldb \<times> error option" where
  "createTable fault db tableName =
     (case fault of
        Some e \<Rightarrow> (db, Some e)
      | None \<Rightarrow> (case db tableName of
                  None \<Rightarrow> (db(tableName \<mapsto> []), None)
                | Some _ \<Rightarrow> (db, None)))"

subsection \<open>The record codec: unmarshalIfValid, scanRows, scanRow\<close>

definition HasPrefix :: "string \<Rightarrow> string \<Rightarrow> bool" where
  "HasPrefix s pre = (take (length pre) s = pre)"

text \<open>
  \<^verbatim>\<open>
  func unmarshalIfValid(data sql.NullString, v any) error {
      if !data.Valid { return nil }
      if len(data.String) == 0 || data.String == "null" { return nil }
      if !strings.HasPrefix(data.String, "{") { return fmt.Errorf("invalid JSON: %q", data.String) }
      return json.Unmarshal([]byte(data.String), v)
  }
  \<close>
  \<open>v\<close> points at a nil field of a fresh event: it stays nil (\<open>None\<close>) on the early
  returns and holds the decoded value after a successful \<^verbatim>\<open>json.Unmarshal\<close>.
\<close>

definition unmarshalIfValid :: "(string \<Rightarrow> error + 'v) \<Rightarrow> string option \<Rightarrow> error + 'v option" where
  "unmarshalIfValid unmarshal data =
     (case data of
        None \<Rightarrow> Inr None
      | Some s \<Rightarrow>
          if length s = 0 \<or> s = ''null'' then Inr None
          else if \<not> HasPrefix s ''{'' then Inl (InvalidJSON s)
          else (case unmarshal s of Inl err \<Rightarrow> Inl err | Inr v \<Rightarrow> Inr (Some v)))"

definition scanRows :: "'sa codec \<Rightarrow> row \<Rightarrow> error + 'sa Event" where
  "scanRows cdc r =
     (case unmarshalIfValid (unmarshalExtraInfo cdc) (col_extra_info r) of
        Inl err \<Rightarrow> Inl (Wrapped ''failed to unmarshal extra info'' err)
      | Inr extraInfo \<Rightarrow>
          (case unmarshalIfValid (unmarshalSuggestedActions cdc) (col_suggested_actions r) of
             Inl err \<Rightarrow> Inl (Wrapped ''failed to unmarshal suggested actions'' err)
           | Inr suggestedActions \<Rightarrow>
               Inr \<lparr>Time = col_timestamp r,
                    Name = col_name r,
                    Type = col_type r,
                    Message = (case col_message r of Some msg \<Rightarrow> msg | None \<Rightarrow> []),
                    DeprecatedExtraInfo = extraInfo,
                    DeprecatedSuggestedActions = suggestedActions\<rparr>))"

text \<open>
  \<^verbatim>\<open>scanRow\<close> has the body of \<^verbatim>\<open>scanRows\<close> on a \<^verbatim>\<open>*sql.Row\<close>, whose
  \<^verbatim>\<open>Scan\<close> also reports the query's own error.
\<close>

definition scanRow :: "'sa codec \<Rightarrow> error + row \<Rightarrow> error + 'sa Event" where
  "scanRow cdc queried = (case queried of Inl err \<Rightarrow> Inl err | Inr r \<Rightarrow> scanRows cdc r)"

subsection \<open>insertEvent, findEvent, getEvents, lastEvent, purgeEvents\<close>

text \<open>
  \<^verbatim>\<open>insertEvent\<close>: a nil payload is not marshalled and reaches the statement as the
  empty string, which \<^verbatim>\<open>NULLIF(?, '')\<close> stores as NULL, as it does an empty message.
\<close>

definition insertEvent :: "'sa codec \<Rightarrow> error option \<Rightarrow> sqldb \<Rightarrow> string \<Rightarrow> 'sa Event \<Rightarrow> sqldb \<times> error option" where
  "insertEvent cdc fault db tableName ev =
     (case (case DeprecatedExtraInfo ev of
              None \<Rightarrow> Inr []
            | Some m \<Rightarrow> (case marshalExtraInfo cdc m of
                          Inl err \<Rightarrow> Inl (Wrapped ''failed to marshal extra info'' err)
                        | Inr js \<Rightarrow> Inr js)) of
        Inl err \<Rightarrow> (db, Some err)
      | Inr extraInfoJSON \<Rightarrow>
          (case (case DeprecatedSuggestedActions ev of
                   None \<Rightarrow> Inr []
                 | Some sa \<Rightarrow> marshalSuggestedActions cdc sa) of
             Inl err \<Rightarrow> (db, Some (Wrapped ''failed to marshal suggested actions'' err))
           | Inr suggestedActionsJSON \<Rightarrow>
               ExecInsert fault db tableName
                 \<lparr>col_timestamp = Time ev,
                  col_name = Name ev,
                  col_type = Type ev,
                  col_message = NULLIF (Message ev) [],
                  col_extra_info = NULLIF extraInfoJSON [],
                  col_suggested_actions = NULLIF suggestedActionsJSON []\<rparr>))"

text \<open>
  The WHERE clause \<^verbatim>\<open>findEvent\<close> builds: timestamp, name and type always; message
  only for a non-empty probe message; suggested_actions only for a non-nil probe payload
  (\<open>saParam\<close> is its JSON text). In SQL \<^verbatim>\<open>col = ?\<close> is not true on a NULL column.
\<close>

definition findWhere :: "'sa Event \<Rightarrow> string option \<Rightarrow> row \<Rightarrow> bool" where
  "findWhere ev saParam r =
     (col_timestamp r = Time ev \<and> col_name r = Name ev \<and> col_type r = Type ev
      \<and> (if Message ev \<noteq> [] then col_message r = Some (Message ev) else True)
      \<and> (case saParam of None \<Rightarrow> True | Some js \<Rightarrow> col_suggested_actions r = Some js))"

text \<open>The loop \<^verbatim>\<open>for rows.Next() { ... }\<close> of \<^verbatim>\<open>findEvent\<close>.\<close>

fun findLoop :: "'sa codec \<Rightarrow> row list \<Rightarrow> 'sa Event \<Rightarrow> error + 'sa Event option" where
  "findLoop cdc [] ev = Inr None"
| "findLoop cdc (r # rs) ev =
     (case scanRows cdc r of
        Inl err \<Rightarrow> Inl err
      | Inr event \<Rightarrow> if compareEvent event ev then Inr (Some event) else findLoop cdc rs ev)"

text \<open>The JSON parameter of the probe's suggested actions, when it has any.\<close>

definition findParam :: "'sa codec \<Rightarrow> 'sa Event \<Rightarrow> error + string option" where
  "findParam cdc ev =
     (case DeprecatedSuggestedActions ev of
        None \<Rightarrow> Inr None
      | Some sa \<Rightarrow> (case marshalSuggestedActions cdc sa of
                     Inl err \<Rightarrow> Inl (Wrapped ''failed to marshal suggested actions'' err)
                   | Inr js \<Rightarrow> Inr (Some js)))"

definition findEvent :: "'sa codec \<Rightarrow> error option \<Rightarrow> sqldb \<Rightarrow> string \<Rightarrow> 'sa Event \<Rightarrow> error + 'sa Event option" where
  "findEvent cdc fault db tableName ev =
     (case findParam cdc ev of
        Inl err \<Rightarrow> Inl err
      | Inr saParam \<Rightarrow>
          (case QueryContext fault db tableName (findWhere ev saParam) of
             Inl err \<Rightarrow> if err = ErrNoRows then Inr None else Inl err
           | Inr rows \<Rightarrow> findLoop cdc rows ev))"

text \<open>The loop of \<^verbatim>\<open>getEvents\<close>, appending each scanned event.\<close>

fun scanAll :: "'sa codec \<Rightarrow> row list \<Rightarrow> 'sa Event list \<Rightarrow> error + 'sa Event list" where
  "scanAll cdc [] events = Inr events"
| "scanAll cdc (r # rs) events =
     (case scanRows cdc r of
        Inl err \<Rightarrow> Inl err
      | Inr event \<Rightarrow> scanAll cdc rs (events @ [event]))"

text \<open>
  \<^verbatim>\<open>getEvents\<close>; \<open>since\<close> is \<^verbatim>\<open>since.UTC().Unix()\<close>. A nil slice is \<open>None\<close>.
\<close>

definition getEvents :: "'sa codec \<Rightarrow> error option \<Rightarrow> sqldb \<Rightarrow> string \<Rightarrow> int \<Rightarrow> error + 'sa Event list option" where
  "getEvents cdc fault db tableName since =
     (case map_sum id order_by_timestamp_desc
             (QueryContext fault db tableName (\<lambda>r. col_timestamp r > since)) of
        Inl err \<Rightarrow> if err = ErrNoRows then Inr None else Inl err
      | Inr rows \<Rightarrow>
          (case scanAll cdc rows [] of
             Inl err \<Rightarrow> Inl err
           | Inr events \<Rightarrow> if length events = 0 then Inr None else Inr (Some events)))"

definition lastEvent :: "'sa codec \<Rightarrow> error option \<Rightarrow> sqldb \<Rightarrow> string \<Rightarrow> error + 'sa Event option" where
  "lastEvent cdc fault db tableName =
     (case scanRow cdc (QueryRowContext_latest fault db tableName) of
        Inl err \<Rightarrow> if err = ErrNoRows then Inr None else Inl err
      | Inr foundEvent \<Rightarrow> Inr (Some foundEvent))"

text \<open>\<^verbatim>\<open>purgeEvents\<close> returns Go's pair \<^verbatim>\<open>(int, error)\<close>.\<close>

definition purgeEvents :: "error option \<Rightarrow> sqldb \<Rightarrow> string \<Rightarrow> int \<Rightarrow> sqldb \<times> int \<times> error option" where
  "purgeEvents fault db tableName beforeTimestamp =
     (case ExecDelete fault db tableName (\<lambda>r. col_timestamp r < beforeTimestamp) of
        (db', Inl err) \<Rightarrow> (db', 0, Some err)
      | (db', Inr affected) \<Rightarrow> (db', int affected, None))"

subsection \<open>Store and Bucket: database.Bucket, LoadBucketWithNoPurge, newTable\<close>

text \<open>
  A \<^verbatim>\<open>time.Duration\<close> is a signed 64-bit count of nanoseconds. The code only
  compares durations and divides one by 5, which cannot overflow, so they are integers;
  Go's \<^verbatim>\<open>/\<close> truncates towards zero, which is \<open>sdiv\<close>.
\<close>

type_synonym Duration = int

definition Second :: Duration where
  "Second = 1000000000"

text \<open>
  The struct \<^verbatim>\<open>database\<close>: its two handles point at the tables of the world below, its
  own state is the retention.
\<close>

record database =
  d_retention :: Duration

text \<open>The struct \<^verbatim>\<open>table\<close> (fields retention, purgeInterval, table).\<close>

record table =
  t_retention :: Duration
  t_purgeInterval :: Duration
  t_table :: string

text \<open>
  \<^verbatim>\<open>Op\<close> after \<^verbatim>\<open>applyOpts\<close>. The options file of the package is not among the
  sources; \<^verbatim>\<open>Bucket\<close> reads only \<^verbatim>\<open>op.disablePurge\<close>, so the applied options are an
  argument.
\<close>

record Op =
  disablePurge :: bool

text \<open>
  What lives outside the Go values: the tables of the SQL engine and the goroutines
  started by \<^verbatim>\<open>go t.runPurge()\<close>, each running on the table handle it was started on.
\<close>

record world =
  tables :: sqldb
  purgers :: "table list"

definition newTable :: "error option \<Rightarrow> string \<Rightarrow> Duration \<Rightarrow> Duration \<Rightarrow> world \<Rightarrow> (error + table) \<times> world" where
  "newTable fault name retention purgeInterval w =
     (let tableName = defaultTableName name in
      case createTable fault (tables w) tableName of
        (db', Some err) \<Rightarrow> (Inl err, w\<lparr>tables := db'\<rparr>)
      | (db', None) \<Rightarrow>
          (let t = \<lparr>t_retention = retention, t_purgeInterval = purgeInterval, t_table = tableName\<rparr>;
               w' = w\<lparr>tables := db'\<rparr>
           in (Inr t, if retention > Second then w'\<lparr>purgers := purgers w' @ [t]\<rparr> else w')))"

text \<open>
  \<^verbatim>\<open>
  func (d *database) Bucket(name string, opts ...OpOption) (Bucket, error) {
      ...
      purgeInterval := d.retention / 5
      if purgeInterval < time.Second { purgeInterval = time.Second }
      if op.disablePurge {
          d.retention = 0
          purgeInterval = 0
      }
      return newTable(d.dbRW, d.dbRO, name, d.retention, purgeInterval)
  }
  \<close>
  The receiver is a pointer: the assignment to \<^verbatim>\<open>d.retention\<close> changes the store, so
  the store is returned with the result.
\<close>

definition Bucket :: "error option \<Rightarrow> database \<Rightarrow> string \<Rightarrow> Op \<Rightarrow> world \<Rightarrow> (error + table) \<times> database \<times> world" where
  "Bucket fault d name op w =
     (let purgeInterval = d_retention d sdiv 5;
          purgeInterval = (if purgeInterval < Second then Second else purgeInterval);
          d = (if disablePurge op then d\<lparr>d_retention := 0\<rparr> else d);
          purgeInterval = (if disablePurge op then 0 else purgeInterval)
      in case newTable fault name (d_retention d) purgeInterval w of
           (res, w') \<Rightarrow> (res, d, w'))"

definition LoadBucketWithNoPurge :: "error option \<Rightarrow> database \<Rightarrow> string \<Rightarrow> world \<Rightarrow> (error + table) \<times> database \<times> world" where
  "LoadBucketWithNoPurge fault d name w =
     (case newTable fault name 0 0 w of (res, w') \<Rightarrow> (res, d, w'))"

text \<open>The methods of \<^verbatim>\<open>*table\<close> pass the handle's table name on.\<close>

definition Insert :: "'sa codec \<Rightarrow> error option \<Rightarrow> table \<Rightarrow> 'sa Event \<Rightarrow> sqldb \<Rightarrow> sqldb \<times> error option" where
  "Insert cdc fault t ev db = insertEvent cdc fault db (t_table t) ev"

definition Find :: "'sa codec \<Rightarrow> error option \<Rightarrow> table \<Rightarrow> 'sa Event \<Rightarrow> sqldb \<Rightarrow> error + 'sa Event option" where
  "Find cdc fault t ev db = findEvent cdc fault db (t_table t) ev"

definition Get :: "'sa codec \<Rightarrow> error option \<Rightarrow> table \<Rightarrow> int \<Rightarrow> sqldb \<Rightarrow> error + 'sa Event list option" where
  "Get cdc fault t since db = getEvents cdc fault db (t_table t) since"

definition Latest :: "'sa codec \<Rightarrow> error option \<Rightarrow> table \<Rightarrow> sqldb \<Rightarrow> error + 'sa Event option" where
  "Latest cdc fault t db = lastEvent cdc fault db (t_table t)"

definition Purge :: "error option \<Rightarrow> table \<Rightarrow> int \<Rightarrow> sqldb \<Rightarrow> sqldb \<times> int \<times> error option" where
  "Purge fault t beforeTimestamp db = purgeEvents fault db (t_table t) beforeTimestamp"

subsection \<open>What the specification says of Find, and of decode errors\<close>

text \<open>
  The specification of \<^verbatim>\<open>Find\<close>, in its words: a stored row is a candidate when its
  time, name and type equal the probe's and, only if the probe supplies them, its message
  equals the probe's and its suggested actions equal the probe's serialized ones
  (\<open>serialized\<close>); it is a match when moreover its extra info, decoded, passes the
  extra-info equality rule against the probe.
\<close>

definition find_candidate :: "'sa Event \<Rightarrow> string \<Rightarrow> row \<Rightarrow> bool" where
  "find_candidate probe serialized r \<longleftrightarrow>
     col_timestamp r = Time probe \<and> col_name r = Name probe \<and> col_type r = Type probe
     \<and> (Message probe \<noteq> [] \<longrightarrow> col_message r = Some (Message probe))
     \<and> (DeprecatedSuggestedActions probe \<noteq> None \<longrightarrow> col_suggested_actions r = Some serialized)"

definition find_match :: "'sa codec \<Rightarrow> 'sa Event \<Rightarrow> string \<Rightarrow> row \<Rightarrow> bool" where
  "find_match cdc probe serialized r \<longleftrightarrow>
     find_candidate probe serialized r
     \<and> (case scanRows cdc r of Inl _ \<Rightarrow> False | Inr stored \<Rightarrow> compareEvent stored probe)"

text \<open>The errors the specification calls wrapped "failed to unmarshal ..." errors.\<close>

fun unmarshal_failure :: "error \<Rightarrow> bool" where
  "unmarshal_failure (Wrapped ctx e) =
     (ctx = ''failed to unmarshal extra info'' \<or> ctx = ''failed to unmarshal suggested actions'')"
| "unmarshal_failure _ = False"

section \<open>The metrics syncer: pkg/metrics/syncer\<close>

text \<open>
  The two interfaces the syncer drives, as the test's mocks implement them: a scraper is
  a state with \<^verbatim>\<open>Scrape(ctx) (Metrics, error)\<close>, a store a state with
  \<^verbatim>\<open>Record(ctx, ms...) error\<close>. A Go error is \<open>'e option\<close>, nil being \<open>None\<close>.
  Every call made on either interface is written to a trace.
\<close>

datatype 'm call = CallScrape | CallRecord "'m list"

type_synonym ('m, 'e, 's) Scrape = "'s \<Rightarrow> ('m list \<times> 'e option) \<times> 's"

type_synonym ('m, 'e, 't) Record = "'m list \<Rightarrow> 't \<Rightarrow> 'e option \<times> 't"

text \<open>
  Modelled from the spec: \<^verbatim>\<open>(*Syncer).sync\<close>, whose file pkg/metrics/syncer/syncer.go
  is not among the sources (only its test file is). The spec: "scrape once; on scrape
  error, return the error unmodified without touching the store. On success, record all
  scraped metrics in one call; on store error, return it unmodified."
\<close>

definition sync :: "('m, 'e, 's) Scrape \<Rightarrow> ('m, 'e, 't) Record \<Rightarrow> 's \<times> 't \<times> 'm call list
                     \<Rightarrow> 'e option \<times> 's \<times> 't \<times> 'm call list" where
  "sync scrape record st =
     (case st of (scraper, store, trace) \<Rightarrow>
        (case scrape scraper of
           ((ms, Some err), scraper') \<Rightarrow> (Some err, scraper', store, trace @ [CallScrape])
         | ((ms, None), scraper') \<Rightarrow>
             (case record ms store of
                (res, store') \<Rightarrow> (res, scraper', store', trace @ [CallScrape, CallRecord ms]))))"

text \<open>The mocks of the syncer's test file.\<close>

record ('m, 'e) mockScraper =
  metrics :: "'m list"
  err :: "'e option"
  scrapes :: nat

definition mockScraper_Scrape :: "('m, 'e, ('m, 'e) mockScraper) Scrape" where
  "mockScraper_Scrape m = ((metrics m, err m), m\<lparr>scrapes := scrapes m + 1\<rparr>)"

record ('m, 'e) mockStore =
  records :: "'m list"
  recordErr :: "'e option"

definition mockStore_Record :: "('m, 'e, ('m, 'e) mockStore) Record" where
  "mockStore_Record ms m =
     (case recordErr m of
        Some e \<Rightarrow> (Some e, m)
      | None \<Rightarrow> (None, m\<lparr>records := records m @ ms\<rparr>))"

section \<open>Example data\<close>

text \<open>
  A small stand-in for \<^verbatim>\<open>encoding/json\<close>, to run the model on concrete tables: it
  knows three extra-info payloads and writes suggested actions (here a string) between
  braces.
\<close>

definition example_marshalExtraInfo :: "(string, string) fmap \<Rightarrow> error + string" where
  "example_marshalExtraInfo m =
     (if fmdom m = {||} then Inr ''{}''
      else if fmdom m = {|''a''|} \<and> fmlookup m ''a'' = Some ''b'' then Inr ''{a:b}''
      else if fmdom m = {|''a'', ''c''|} \<and> fmlookup m ''a'' = Some ''b'' \<and> fmlookup m ''c'' = Some ''d''
      then Inr ''{a:b,c:d}''
      else Inl (JSONError ''unsupported''))"

definition example_unmarshalExtraInfo :: "string \<Rightarrow> error + (string, string) fmap" where
  "example_unmarshalExtraInfo s =
     (if s = ''{}'' then Inr fmempty
      else if s = ''{a:b}'' then Inr (fmap_of_list [(''a'', ''b'')])
      else if s = ''{a:b,c:d}'' then Inr (fmap_of_list [(''a'', ''b''), (''c'', ''d'')])
      else Inl (JSONError s))"

definition example_unmarshalSuggestedActions :: "string \<Rightarrow> error + string" where
  "example_unmarshalSuggestedActions s =
     (if 2 \<le> length s \<and> hd s = CHR ''{'' \<and> last s = CHR ''}'' then Inr (butlast (tl s))
      else Inl (JSONError s))"

definition example_codec :: "string codec" where
  "example_codec =
     \<lparr>marshalExtraInfo = example_marshalExtraInfo,
      unmarshalExtraInfo = example_unmarshalExtraInfo,
      marshalSuggestedActions = (\<lambda>sa. Inr (''{'' @ sa @ ''}'')),
      unmarshalSuggestedActions = example_unmarshalSuggestedActions\<rparr>"

definition example_row :: "int \<Rightarrow> string option \<Rightarrow> string option \<Rightarrow> string option \<Rightarrow> row" where
  "example_row ts msg extra sa =
     \<lparr>col_timestamp = ts, col_name = ''kmsg'', col_type = ''Warning'',
      col_message = msg, col_extra_info = extra, col_suggested_actions = sa\<rparr>"

definition example_event :: "int \<Rightarrow> string \<Rightarrow> gomap \<Rightarrow> string option \<Rightarrow> string Event" where
  "example_event ts msg extra sa =
     \<lparr>Time = ts, Name = ''kmsg'', Type = ''Warning'',
      Message = msg, DeprecatedExtraInfo = extra, DeprecatedSuggestedActions = sa\<rparr>"

definition single_table :: "string \<Rightarrow> row list \<Rightarrow> sqldb" where
  "single_table n rows = (\<lambda>t. if t = n then Some rows else None)"

definition empty_world :: world where
  "empty_world = \<lparr>tables = (\<lambda>t. None), purgers = []\<rparr>"

definition example_table :: "string \<Rightarrow> table" where
  "example_table name =
     \<lparr>t_retention = 0, t_purgeInterval = Second, t_table = defaultTableName name\<rparr>"

section \<open>Properties of the event store\<close>

subsection \<open>compareEvent is equality of the extra-info maps\<close>

lemma fmdom_eq_of_card:
  assumes "fcard (fmdom A) = fcard (fmdom B)" and "fmdom A |\<subseteq>| fmdom B"
  shows "fmdom A = fmdom B"
proof -
  have "fset (fmdom A) \<subseteq> fset (fmdom B)"
    using assms(2) by (simp add: less_eq_fset.rep_eq)
  moreover have "card (fset (fmdom B)) \<le> card (fset (fmdom A))"
    using assms(1) by (simp add: fcard.rep_eq)
  ultimately have "fset (fmdom A) = fset (fmdom B)"
    by (intro card_seteq) simp_all
  then show ?thesis by (simp add: fset_inject)
qed

lemma compareEvent_iff_entries:
  "compareEvent a b \<longleftrightarrow> entries (DeprecatedExtraInfo a) = entries (DeprecatedExtraInfo b)"
proof
  assume c: "compareEvent a b"
  let ?A = "entries (DeprecatedExtraInfo a)" and ?B = "entries (DeprecatedExtraInfo b)"
  from c have card: "fcard (fmdom ?A) = fcard (fmdom ?B)"
    by (simp add: compareEvent_def len_def split: if_splits)
  from c have sub: "\<And>k v. fmlookup ?A k = Some v \<Longrightarrow> fmlookup ?B k = Some v"
    by (auto simp: compareEvent_def fmpred_iff entry_ok_def split: if_splits option.splits)
  have "fmdom ?A |\<subseteq>| fmdom ?B"
    using sub by (auto simp: fmlookup_dom_iff)
  with card have dom: "fmdom ?A = fmdom ?B" by (rule fmdom_eq_of_card)
  show "?A = ?B"
  proof (rule fmap_ext)
    fix k
    show "fmlookup ?A k = fmlookup ?B k"
    proof (cases "fmlookup ?A k")
      case None
      then have "k |\<notin>| fmdom ?A" by (rule fmdom_notI)
      then have "k |\<notin>| fmdom ?B" using dom by simp
      then show ?thesis using None by (simp add: fmdom_notD)
    next
      case (Some v)
      then show ?thesis using sub by simp
    qed
  qed
next
  assume "entries (DeprecatedExtraInfo a) = entries (DeprecatedExtraInfo b)"
  then show "compareEvent a b"
    by (auto simp: compareEvent_def len_def fmpred_iff entry_ok_def)
qed

lemma len_0_iff: "len m = 0 \<longleftrightarrow> entries m = fmempty"
  by (auto simp: len_def fmap_ext fmdom_notD)

text \<open>
  Claim C2. \<open>compareEvent\<close> holds exactly when the two extra-info maps have the same
  number of keys and every key of A is in B with the same value; it is symmetric; an
  event without extra-info keys matches exactly the events without extra-info keys; and
  an event with extra info \<open>{a: b}\<close> matches neither one with no keys nor one with
  \<open>{a: b, c: d}\<close>, whichever of the two is the probe.
\<close>

theorem compareEvent_dedup_equality:
  fixes a :: "'sa Event" and b :: "'sb Event"
  shows "(compareEvent a b \<longleftrightarrow>
            len (DeprecatedExtraInfo a) = len (DeprecatedExtraInfo b)
            \<and> (\<forall>key value. fmlookup (entries (DeprecatedExtraInfo a)) key = Some value
                   \<longrightarrow> fmlookup (entries (DeprecatedExtraInfo b)) key = Some value))
         \<and> (compareEvent a b \<longleftrightarrow> compareEvent b a)
         \<and> (len (DeprecatedExtraInfo a) = 0 \<longrightarrow>
              (compareEvent a b \<longleftrightarrow> len (DeprecatedExtraInfo b) = 0))
         \<and> (len (DeprecatedExtraInfo b) = 0 \<longrightarrow>
              (compareEvent a b \<longleftrightarrow> len (DeprecatedExtraInfo a) = 0))
         \<and> (entries (DeprecatedExtraInfo a) = fmap_of_list [(''a'', ''b'')]
              \<and> (entries (DeprecatedExtraInfo b) = fmempty
                   \<or> entries (DeprecatedExtraInfo b) = fmap_of_list [(''a'', ''b''), (''c'', ''d'')])
              \<longrightarrow> \<not> compareEvent a b \<and> \<not> compareEvent b a)"
proof (intro conjI)
  show "compareEvent a b \<longleftrightarrow>
            len (DeprecatedExtraInfo a) = len (DeprecatedExtraInfo b)
            \<and> (\<forall>key value. fmlookup (entries (DeprecatedExtraInfo a)) key = Some value
                   \<longrightarrow> fmlookup (entries (DeprecatedExtraInfo b)) key = Some value)"
    by (auto simp: compareEvent_def fmpred_iff entry_ok_def split: option.splits)
  show "compareEvent a b \<longleftrightarrow> compareEvent b a"
    by (auto simp: compareEvent_iff_entries)
  show "len (DeprecatedExtraInfo a) = 0 \<longrightarrow>
              (compareEvent a b \<longleftrightarrow> len (DeprecatedExtraInfo b) = 0)"
    by (auto simp: compareEvent_iff_entries len_0_iff)
  show "len (DeprecatedExtraInfo b) = 0 \<longrightarrow>
              (compareEvent a b \<longleftrightarrow> len (DeprecatedExtraInfo a) = 0)"
    by (auto simp: compareEvent_iff_entries len_0_iff)
  have ne1: "fmap_of_list [(''a'', ''b'')] \<noteq> (fmempty :: (string, string) fmap)"
  proof
    assume "fmap_of_list [(''a'', ''b'')] = (fmempty :: (string, string) fmap)"
    then have "fmlookup (fmap_of_list [(''a'', ''b'')]) ''a''
                 = fmlookup (fmempty :: (string, string) fmap) ''a''"
      by simp
    then show False by (simp add: fmlookup_of_list)
  qed
  have ne2: "fmap_of_list [(''a'', ''b'')]
               \<noteq> (fmap_of_list [(''a'', ''b''), (''c'', ''d'')] :: (string, string) fmap)"
  proof
    assume "fmap_of_list [(''a'', ''b'')]
              = (fmap_of_list [(''a'', ''b''), (''c'', ''d'')] :: (string, string) fmap)"
    then have "fmlookup (fmap_of_list [(''a'', ''b'')]) ''c''
                 = fmlookup (fmap_of_list [(''a'', ''b''), (''c'', ''d'')] :: (string, string) fmap) ''c''"
      by simp
    then show False by (simp add: fmlookup_of_list)
  qed
  show "entries (DeprecatedExtraInfo a) = fmap_of_list [(''a'', ''b'')]
              \<and> (entries (DeprecatedExtraInfo b) = fmempty
                   \<or> entries (DeprecatedExtraInfo b) = fmap_of_list [(''a'', ''b''), (''c'', ''d'')])
              \<longrightarrow> \<not> compareEvent a b \<and> \<not> compareEvent b a"
    using ne1 ne2 by (auto simp: compareEvent_iff_entries)
qed

theorem compareEvent_dedup_equality_witness:
  "entries (DeprecatedExtraInfo (example_event 0 [] (Some (fmap_of_list [(''a'', ''b'')])) None))
     = fmap_of_list [(''a'', ''b'')]
   \<and> entries (DeprecatedExtraInfo (example_event 0 [] (Some fmempty) None)) = fmempty
   \<and> len (DeprecatedExtraInfo (example_event 0 [] (Some fmempty) None)) = 0
   \<and> \<not> compareEvent (example_event 0 [] (Some (fmap_of_list [(''a'', ''b'')])) None)
                     (example_event 0 [] (Some fmempty) None)
   \<and> \<not> compareEvent (example_event 0 [] (Some fmempty) None)
                     (example_event 0 [] (Some (fmap_of_list [(''a'', ''b'')])) None)
   \<and> compareEvent (example_event 0 [] (Some fmempty) None) (example_event 1 ''x'' None None)"
  using compareEvent_dedup_equality
          [of "example_event 0 [] (Some (fmap_of_list [(''a'', ''b'')])) None"
              "example_event 0 [] (Some fmempty) None"]
        compareEvent_dedup_equality
          [of "example_event 0 [] (Some fmempty) None" "example_event 1 ''x'' None None"]
  by (simp add: example_event_def entries_def len_def)

subsection \<open>Purge\<close>

text \<open>
  Claim C5. On an existing table and with the engine executing the statement,
  \<open>Purge\<close> deletes exactly the rows whose timestamp is strictly below the cutoff
  (a row at the cutoff stays) and returns their number with no error; on an empty table
  that is \<open>(0, nil)\<close> and the table is unchanged; every later purge of the purged table
  with the same cutoff returns the count 0 and changes nothing.
\<close>

theorem Purge_strict_idempotent:
  assumes "db (t_table t) = Some rows"
  shows "Purge None t cutoff db =
           (db(t_table t \<mapsto> filter (\<lambda>r. \<not> col_timestamp r < cutoff) rows),
            int (length (filter (\<lambda>r. col_timestamp r < cutoff) rows)), None)
         \<and> (\<forall>db' n e. Purge None t cutoff db = (db', n, e) \<longrightarrow>
              (\<exists>rows'. db' (t_table t) = Some rows'
                 \<and> (\<forall>r. r \<in> set rows' \<longleftrightarrow> r \<in> set rows \<and> cutoff \<le> col_timestamp r)
                 \<and> int (length rows) = int (length rows') + n)
              \<and> (\<forall>fault. Purge fault t cutoff db' = (db', 0, fault)))
         \<and> (rows = [] \<longrightarrow> Purge None t cutoff db = (db, 0, None))"
proof -
  let ?keep = "filter (\<lambda>r. \<not> col_timestamp r < cutoff) rows"
  have first: "Purge None t cutoff db =
           (db(t_table t \<mapsto> ?keep),
            int (length (filter (\<lambda>r. col_timestamp r < cutoff) rows)), None)"
    using assms by (simp add: Purge_def purgeEvents_def ExecDelete_def)
  have again: "Purge fault t cutoff (db(t_table t \<mapsto> ?keep))
                 = (db(t_table t \<mapsto> ?keep), 0, fault)" for fault
    by (cases fault) (simp_all add: Purge_def purgeEvents_def ExecDelete_def)
  have len: "int (length rows)
               = int (length ?keep) + int (length (filter (\<lambda>r. col_timestamp r < cutoff) rows))"
    using sum_length_filter_compl[of "\<lambda>r. col_timestamp r < cutoff" rows] by simp
  have empty: "rows = [] \<longrightarrow> Purge None t cutoff db = (db, 0, None)"
    using assms by (auto simp: Purge_def purgeEvents_def ExecDelete_def)
  show ?thesis using first again len empty by (auto simp: not_less)
qed

theorem Purge_strict_idempotent_witness:
  "single_table (defaultTableName ''t'')
       [example_row 1 None None None, example_row 5 None None None, example_row 9 None None None]
       (t_table (example_table ''t''))
     = Some [example_row 1 None None None, example_row 5 None None None,
             example_row 9 None None None]
   \<and> (case Purge None (example_table ''t'') 5
             (single_table (defaultTableName ''t'')
                [example_row 1 None None None, example_row 5 None None None,
                 example_row 9 None None None]) of
        (db', n, e) \<Rightarrow>
           db' (t_table (example_table ''t''))
             = Some [example_row 5 None None None, example_row 9 None None None]
           \<and> n = 1 \<and> e = None
           \<and> Purge None (example_table ''t'') 5 db' = (db', 0, None))
   \<and> Purge None (example_table ''t'') 5 (single_table (defaultTableName ''t'') [])
       = (single_table (defaultTableName ''t'') [], 0, None)"
proof -
  let ?rows = "[example_row 1 None None None, example_row 5 None None None,
                example_row 9 None None None]"
  let ?db = "single_table (defaultTableName ''t'') ?rows"
  have t: "?db (t_table (example_table ''t'')) = Some ?rows"
    by (simp add: single_table_def example_table_def)
  have t0: "single_table (defaultTableName ''t'') [] (t_table (example_table ''t'')) = Some []"
    by (simp add: single_table_def example_table_def)
  note p = Purge_strict_idempotent[of ?db "example_table ''t''" ?rows 5, OF t]
  note p0 = Purge_strict_idempotent
              [of "single_table (defaultTableName ''t'') []" "example_table ''t''" "[]" 5, OF t0,
               THEN conjunct2, THEN conjunct2]
  from p p0 t show ?thesis
    by (simp add: example_row_def)
qed

subsection \<open>Table names\<close>

lemma newTable_table:
  "newTable fault name r p w = (Inr t, w') \<Longrightarrow> t_table t = defaultTableName name"
  by (auto simp: newTable_def Let_def split: prod.splits option.splits if_splits)

lemma Bucket_table:
  "fst (Bucket fault d name op w) = Inr t \<Longrightarrow> t_table t = defaultTableName name"
  by (auto simp: Bucket_def Let_def split: prod.splits dest: newTable_table)

lemma example_bucket:
  "fst (Bucket None \<lparr>d_retention = 0\<rparr> name \<lparr>disablePurge = False\<rparr> empty_world)
     = Inr (example_table name)"
  by (simp add: Bucket_def newTable_def createTable_def empty_world_def Let_def
      signed_divide_int_def Second_def example_table_def)

text \<open>
  Claim C10. \<open>defaultTableName\<close> is not injective: names that differ only in letter
  case, or in a space against a hyphen or an underscore, get the same table name; and
  two buckets a store hands out under names with the same table name hold the same
  table name, so every operation of the one is that operation of the other.
\<close>

theorem defaultTableName_not_injective:
  "defaultTableName ''Test'' = defaultTableName ''test''
   \<and> defaultTableName ''a b'' = defaultTableName ''a-b''
   \<and> defaultTableName ''a-b'' = defaultTableName ''a_b''
   \<and> \<not> inj defaultTableName
   \<and> (\<forall>n1 n2 t1 t2 fault1 fault2 d1 d2 op1 op2 w1 w2.
        defaultTableName n1 = defaultTableName n2
        \<and> fst (Bucket fault1 d1 n1 op1 w1) = Inr t1
        \<and> fst (Bucket fault2 d2 n2 op2 w2) = Inr t2
        \<longrightarrow> t_table t1 = t_table t2
            \<and> (\<forall>(cdc :: 'sa codec) fault ev since before db.
                  Insert cdc fault t1 ev db = Insert cdc fault t2 ev db
                  \<and> Find cdc fault t1 ev db = Find cdc fault t2 ev db
                  \<and> Get cdc fault t1 since db = Get cdc fault t2 since db
                  \<and> Latest cdc fault t1 db = Latest cdc fault t2 db
                  \<and> Purge fault t1 before db = Purge fault t2 before db))"
proof (intro conjI)
  show a: "defaultTableName ''Test'' = defaultTableName ''test''" by code_simp
  show "defaultTableName ''a b'' = defaultTableName ''a-b''" by code_simp
  show "defaultTableName ''a-b'' = defaultTableName ''a_b''" by code_simp
  show "\<not> inj defaultTableName"
  proof
    assume "inj defaultTableName"
    from injD[OF this a] show False by simp
  qed
  show "\<forall>n1 n2 t1 t2 fault1 fault2 d1 d2 op1 op2 w1 w2.
        defaultTableName n1 = defaultTableName n2
        \<and> fst (Bucket fault1 d1 n1 op1 w1) = Inr t1
        \<and> fst (Bucket fault2 d2 n2 op2 w2) = Inr t2
        \<longrightarrow> t_table t1 = t_table t2
            \<and> (\<forall>(cdc :: 'sa codec) fault ev since before db.
                  Insert cdc fault t1 ev db = Insert cdc fault t2 ev db
                  \<and> Find cdc fault t1 ev db = Find cdc fault t2 ev db
                  \<and> Get cdc fault t1 since db = Get cdc fault t2 since db
                  \<and> Latest cdc fault t1 db = Latest cdc fault t2 db
                  \<and> Purge fault t1 before db = Purge fault t2 before db)"
    by (auto simp: Insert_def Find_def Get_def Latest_def Purge_def dest!: Bucket_table)
qed

theorem defaultTableName_not_injective_witness:
  "defaultTableName ''a b'' = defaultTableName ''a-b''
   \<and> fst (Bucket None \<lparr>d_retention = 0\<rparr> ''a b'' \<lparr>disablePurge = False\<rparr> empty_world)
       = Inr (example_table ''a b'')
   \<and> fst (Bucket None \<lparr>d_retention = 0\<rparr> ''a-b'' \<lparr>disablePurge = False\<rparr> empty_world)
       = Inr (example_table ''a-b'')
   \<and> t_table (example_table ''a b'') = t_table (example_table ''a-b'')
   \<and> Get example_codec None (example_table ''a-b'') 0
         (fst (Insert example_codec None (example_table ''a b'') (example_event 5 ''oom'' None None)
                (single_table (defaultTableName ''a b'') [])))
       = Inr (Some [example_event 5 ''oom'' None None])"
proof -
  have n: "defaultTableName ''a b'' = defaultTableName ''a-b''" by code_simp
  note b1 = example_bucket[of "''a b''"] and b2 = example_bucket[of "''a-b''"]
  from defaultTableName_not_injective
         [THEN conjunct2, THEN conjunct2, THEN conjunct2, THEN conjunct2, rule_format,
          OF conjI[OF n conjI[OF b1 b2]]]
  have same: "t_table (example_table ''a b'') = t_table (example_table ''a-b'')"
    and get: "Get example_codec None (example_table ''a b'') since db
                = Get example_codec None (example_table ''a-b'') since db" for since db
    by blast+
  have "Get example_codec None (example_table ''a b'') 0
         (fst (Insert example_codec None (example_table ''a b'') (example_event 5 ''oom'' None None)
                (single_table (defaultTableName ''a b'') [])))
       = Inr (Some [example_event 5 ''oom'' None None])"
    by (simp add: Get_def Insert_def getEvents_def insertEvent_def example_event_def
        single_table_def ExecInsert_def QueryContext_def NULLIF_def order_by_timestamp_desc_def
        scanRows_def unmarshalIfValid_def example_table_def)
  with n b1 b2 same get show ?thesis by simp
qed

subsection \<open>The retention purger at bucket creation\<close>

lemma newTable_ok:
  "\<exists>t w'. newTable None name retention purgeInterval w = (Inr t, w')
      \<and> t = \<lparr>t_retention = retention, t_purgeInterval = purgeInterval, t_table = defaultTableName name\<rparr>
      \<and> purgers w' = (if retention > Second then purgers w @ [t] else purgers w)"
  by (simp add: newTable_def createTable_def Let_def split: option.splits)

lemma Bucket_enabled:
  assumes "\<not> disablePurge op"
  shows "Bucket None d name op w
           = (case newTable None name (d_retention d) (max (d_retention d sdiv 5) Second) w of
                (res, w') \<Rightarrow> (res, d, w'))"
  using assms by (simp add: Bucket_def Let_def max_def not_less)

lemma Bucket_disabled:
  assumes "disablePurge op"
  shows "Bucket None d name op w
           = (case newTable None name 0 0 w of (res, w') \<Rightarrow> (res, d\<lparr>d_retention := 0\<rparr>, w'))"
  using assms by (simp add: Bucket_def Let_def)

lemma Second_pos: "0 < Second"
  by (simp add: Second_def)

text \<open>
  Claim C7. \<open>newTable\<close> starts the purge goroutine exactly when the retention is above
  one second. A bucket the store creates without the disable-purge option gets the
  store's retention and the interval \<open>max (retention / 5) (1 second)\<close>; no purger starts
  when the retention is at most one second, otherwise one starts on that handle, and there
  Go's truncating division is the plain one. With the option, and for
  \<open>LoadBucketWithNoPurge\<close>, retention and interval are 0 and no purger starts.
\<close>

theorem Bucket_purger_start:
  "(\<exists>t w'. newTable None name retention purgeInterval w = (Inr t, w')
        \<and> t_retention t = retention \<and> t_purgeInterval t = purgeInterval
        \<and> purgers w' = (if retention > Second then purgers w @ [t] else purgers w))
   \<and> (\<not> disablePurge op \<longrightarrow>
        (\<exists>t w'. Bucket None d name op w = (Inr t, d, w')
           \<and> t_retention t = d_retention d
           \<and> t_purgeInterval t = max (d_retention d sdiv 5) Second
           \<and> purgers w' = (if d_retention d \<le> Second then purgers w else purgers w @ [t])))
   \<and> (Second < d_retention d \<longrightarrow> d_retention d sdiv 5 = d_retention d div 5)
   \<and> (disablePurge op \<longrightarrow>
        (\<exists>t w'. fst (Bucket None d name op w) = Inr t \<and> snd (snd (Bucket None d name op w)) = w'
           \<and> t_retention t = 0 \<and> t_purgeInterval t = 0 \<and> purgers w' = purgers w))
   \<and> (\<exists>t w'. LoadBucketWithNoPurge None d name w = (Inr t, d, w')
           \<and> t_retention t = 0 \<and> t_purgeInterval t = 0 \<and> purgers w' = purgers w)"
proof (intro conjI impI)
  show "\<exists>t w'. newTable None name retention purgeInterval w = (Inr t, w')
        \<and> t_retention t = retention \<and> t_purgeInterval t = purgeInterval
        \<and> purgers w' = (if retention > Second then purgers w @ [t] else purgers w)"
    using newTable_ok[of name retention purgeInterval w] by force
next
  assume en: "\<not> disablePurge op"
  obtain t w' where nt: "newTable None name (d_retention d) (max (d_retention d sdiv 5) Second) w = (Inr t, w')"
    and t: "t = \<lparr>t_retention = d_retention d, t_purgeInterval = max (d_retention d sdiv 5) Second, t_table = defaultTableName name\<rparr>"
    and p: "purgers w' = (if d_retention d > Second then purgers w @ [t] else purgers w)"
    using newTable_ok[of name "d_retention d" "max (d_retention d sdiv 5) Second" w] by blast
  have "Bucket None d name op w = (Inr t, d, w')"
    by (simp add: Bucket_enabled[OF en] nt)
  moreover have "t_retention t = d_retention d" "t_purgeInterval t = max (d_retention d sdiv 5) Second"
    by (simp_all add: t)
  moreover have "purgers w' = (if d_retention d \<le> Second then purgers w else purgers w @ [t])"
    using p by (simp add: not_le)
  ultimately show "\<exists>t w'. Bucket None d name op w = (Inr t, d, w')
           \<and> t_retention t = d_retention d
           \<and> t_purgeInterval t = max (d_retention d sdiv 5) Second
           \<and> purgers w' = (if d_retention d \<le> Second then purgers w else purgers w @ [t])"
    by blast
next
  assume "Second < d_retention d"
  then have "0 < d_retention d" using Second_pos by linarith
  then show "d_retention d sdiv 5 = d_retention d div 5"
    by (simp add: signed_divide_int_def)
next
  assume dis: "disablePurge op"
  obtain t w' where nt: "newTable None name 0 0 w = (Inr t, w')"
    and t: "t = \<lparr>t_retention = 0, t_purgeInterval = 0, t_table = defaultTableName name\<rparr>"
    and p: "purgers w' = (if 0 > Second then purgers w @ [t] else purgers w)"
    using newTable_ok[of name 0 0 w] by blast
  have "fst (Bucket None d name op w) = Inr t" "snd (snd (Bucket None d name op w)) = w'"
    by (simp_all add: Bucket_disabled[OF dis] nt)
  moreover have "t_retention t = 0" "t_purgeInterval t = 0" by (simp_all add: t)
  moreover have "purgers w' = purgers w" using p Second_pos by simp
  ultimately show "\<exists>t w'. fst (Bucket None d name op w) = Inr t \<and> snd (snd (Bucket None d name op w)) = w'
           \<and> t_retention t = 0 \<and> t_purgeInterval t = 0 \<and> purgers w' = purgers w"
    by blast
next
  obtain t w' where nt: "newTable None name 0 0 w = (Inr t, w')"
    and t: "t = \<lparr>t_retention = 0, t_purgeInterval = 0, t_table = defaultTableName name\<rparr>"
    and p: "purgers w' = (if 0 > Second then purgers w @ [t] else purgers w)"
    using newTable_ok[of name 0 0 w] by blast
  have "LoadBucketWithNoPurge None d name w = (Inr t, d, w')"
    by (simp add: LoadBucketWithNoPurge_def nt)
  moreover have "t_retention t = 0" "t_purgeInterval t = 0" by (simp_all add: t)
  moreover have "purgers w' = purgers w" using p Second_pos by simp
  ultimately show "\<exists>t w'. LoadBucketWithNoPurge None d name w = (Inr t, d, w')
           \<and> t_retention t = 0 \<and> t_purgeInterval t = 0 \<and> purgers w' = purgers w"
    by blast
qed


lemma example_interval: "max (10 * Second sdiv 5) Second = 2 * Second"
  by (simp add: Second_def signed_divide_int_def)

lemma empty_purgers: "purgers empty_world = []"
  by (simp add: empty_world_def)

theorem Bucket_purger_start_witness:
  "\<not> disablePurge \<lparr>disablePurge = False\<rparr>
   \<and> Second < d_retention \<lparr>d_retention = 10 * Second\<rparr>
   \<and> (\<exists>t w'. Bucket None \<lparr>d_retention = 10 * Second\<rparr> ''cpu'' \<lparr>disablePurge = False\<rparr> empty_world
                = (Inr t, \<lparr>d_retention = 10 * Second\<rparr>, w')
          \<and> t_retention t = 10 * Second \<and> t_purgeInterval t = 2 * Second \<and> purgers w' = [t])
   \<and> (\<exists>t w'. Bucket None \<lparr>d_retention = Second\<rparr> ''cpu'' \<lparr>disablePurge = False\<rparr> empty_world
                = (Inr t, \<lparr>d_retention = Second\<rparr>, w')
          \<and> purgers w' = [])"
proof -
  have en: "\<not> disablePurge \<lparr>disablePurge = False\<rparr>" by simp
  have big: "Second < d_retention \<lparr>d_retention = 10 * Second\<rparr>" by (simp add: Second_def)
  have a: "\<exists>t w'. Bucket None \<lparr>d_retention = 10 * Second\<rparr> ''cpu'' \<lparr>disablePurge = False\<rparr> empty_world
                = (Inr t, \<lparr>d_retention = 10 * Second\<rparr>, w')
          \<and> t_retention t = 10 * Second \<and> t_purgeInterval t = 2 * Second \<and> purgers w' = [t]"
    using Bucket_purger_start[of "''cpu''" 0 0 empty_world "\<lparr>disablePurge = False\<rparr>"
            "\<lparr>d_retention = 10 * Second\<rparr>", THEN conjunct2, THEN conjunct1, rule_format, OF en]
      big
    by (simp add: example_interval empty_purgers)
  have b: "\<exists>t w'. Bucket None \<lparr>d_retention = Second\<rparr> ''cpu'' \<lparr>disablePurge = False\<rparr> empty_world
                = (Inr t, \<lparr>d_retention = Second\<rparr>, w')
          \<and> purgers w' = []"
    using Bucket_purger_start[of "''cpu''" 0 0 empty_world "\<lparr>disablePurge = False\<rparr>"
            "\<lparr>d_retention = Second\<rparr>", THEN conjunct2, THEN conjunct1, rule_format, OF en]
    by (simp add: empty_purgers) blast
  from en big a b show ?thesis by blast
qed


text \<open>
  Claim C6. On a store with a retention of ten seconds, asking for bucket \<open>a\<close> with
  the disable-purge option writes 0 into the store's retention; bucket \<open>b\<close>, asked
  for next without the option, then gets retention 0 and no purger, where the untouched
  store gives it ten seconds, an interval of two seconds and a purger.
  \<open>LoadBucketWithNoPurge\<close> on the same store leaves its retention alone.
\<close>

theorem Bucket_disablePurge_resets_store_retention:
  "(case Bucket None \<lparr>d_retention = 10 * Second\<rparr> ''a'' \<lparr>disablePurge = True\<rparr> empty_world of
      (r1, d1, w1) \<Rightarrow>
        d1 = \<lparr>d_retention = 0\<rparr>
        \<and> (case Bucket None d1 ''b'' \<lparr>disablePurge = False\<rparr> w1 of
             (r2, d2, w2) \<Rightarrow>
               r2 = Inr \<lparr>t_retention = 0, t_purgeInterval = Second, t_table = defaultTableName ''b''\<rparr>
               \<and> purgers w2 = [])
        \<and> (case Bucket None \<lparr>d_retention = 10 * Second\<rparr> ''b'' \<lparr>disablePurge = False\<rparr> w1 of
             (r3, d3, w3) \<Rightarrow>
               r3 = Inr \<lparr>t_retention = 10 * Second, t_purgeInterval = 2 * Second, t_table = defaultTableName ''b''\<rparr>
               \<and> purgers w3 = [\<lparr>t_retention = 10 * Second, t_purgeInterval = 2 * Second, t_table = defaultTableName ''b''\<rparr>]))
   \<and> fst (snd (LoadBucketWithNoPurge None \<lparr>d_retention = 10 * Second\<rparr> ''a'' empty_world))
       = \<lparr>d_retention = 10 * Second\<rparr>"
proof -
  have s: "\<not> (0 :: int) > Second" "10 * Second > Second" "\<not> 10 * Second sdiv 5 < Second" "10 * Second sdiv 5 = 2 * Second"
      "(0::int) sdiv 5 < Second"
    by (simp_all add: Second_def signed_divide_int_def)
  show ?thesis
    by (simp add: s Second_pos empty_world_def Bucket_def LoadBucketWithNoPurge_def newTable_def createTable_def Let_def
        split: option.splits)
qed

subsection \<open>What a scan returns\<close>

lemma scanRows_fields:
  assumes "scanRows cdc r = Inr e"
  shows "Time e = col_timestamp r" and "Name e = col_name r" and "Type e = col_type r"
    and "Message e = (case col_message r of None \<Rightarrow> [] | Some m \<Rightarrow> m)"
  using assms by (auto simp: scanRows_def split: sum.splits option.splits)

lemma scanRows_error:
  assumes "scanRows cdc r = Inl e"
  shows "unmarshal_failure e"
  using assms by (auto simp: scanRows_def split: sum.splits)

lemma scanAll_sound:
  "scanAll cdc rs acc = Inr evs \<Longrightarrow>
     \<exists>es. evs = acc @ es \<and> list_all2 (\<lambda>r e. scanRows cdc r = Inr e) rs es"
proof (induction rs arbitrary: acc)
  case Nil
  then show ?case by simp
next
  case (Cons r rs)
  from Cons.prems obtain e where e: "scanRows cdc r = Inr e"
    and rest: "scanAll cdc rs (acc @ [e]) = Inr evs"
    by (auto split: sum.splits)
  from Cons.IH[OF rest] obtain es where "evs = (acc @ [e]) @ es"
    and "list_all2 (\<lambda>r e. scanRows cdc r = Inr e) rs es" by blast
  with e have "evs = acc @ (e # es)" and "list_all2 (\<lambda>r e. scanRows cdc r = Inr e) (r # rs) (e # es)"
    by simp_all
  then show ?case by blast
qed

lemma scanAll_ok:
  "\<forall>r\<in>set rs. \<exists>e. scanRows cdc r = Inr e \<Longrightarrow>
     scanAll cdc rs acc = Inr (acc @ map (\<lambda>r. projr (scanRows cdc r)) rs)"
proof (induction rs arbitrary: acc)
  case Nil
  then show ?case by simp
next
  case (Cons r rs)
  then obtain e where e: "scanRows cdc r = Inr e" by auto
  from Cons have "scanAll cdc rs (acc @ [e]) = Inr ((acc @ [e]) @ map (\<lambda>r. projr (scanRows cdc r)) rs)"
    by simp
  with e show ?case by simp
qed

lemma scanAll_fails:
  "r \<in> set rs \<Longrightarrow> scanRows cdc r = Inl e \<Longrightarrow>
     \<exists>r' e'. r' \<in> set rs \<and> scanRows cdc r' = Inl e' \<and> scanAll cdc rs acc = Inl e'"
proof (induction rs arbitrary: acc)
  case Nil
  then show ?case by simp
next
  case (Cons q rs)
  show ?case
  proof (cases "scanRows cdc q")
    case (Inl e')
    then show ?thesis by auto
  next
    case (Inr ev)
    with Cons.prems have "r \<in> set rs" by auto
    from Cons.IH[OF this Cons.prems(2), of "acc @ [ev]"] Inr show ?thesis by auto
  qed
qed

lemma list_all2_right_mem:
  "list_all2 P xs ys \<Longrightarrow> y \<in> set ys \<Longrightarrow> \<exists>x\<in>set xs. P x y"
  by (induction rule: list_all2_induct) auto

lemma findLoop_sound:
  "findLoop cdc rs ev = Inr (Some e) \<Longrightarrow> \<exists>r\<in>set rs. scanRows cdc r = Inr e"
  by (induction rs) (auto split: sum.splits if_splits)

lemma getEvents_sound:
  assumes "getEvents cdc fault db tableName since = Inr (Some evs)" and "e \<in> set evs"
  shows "\<exists>rows r. db tableName = Some rows \<and> r \<in> set rows \<and> scanRows cdc r = Inr e"
proof -
  from assms(1) obtain rows where tbl: "db tableName = Some rows"
    and scan: "scanAll cdc (order_by_timestamp_desc (filter (\<lambda>r. col_timestamp r > since) rows)) [] = Inr evs"
    by (auto simp: getEvents_def QueryContext_def split: option.splits sum.splits if_splits)
  from scanAll_sound[OF scan] have
    "list_all2 (\<lambda>r e. scanRows cdc r = Inr e) (order_by_timestamp_desc (filter (\<lambda>r. col_timestamp r > since) rows)) evs"
    by simp
  from list_all2_right_mem[OF this assms(2)]
  obtain r where "r \<in> set (order_by_timestamp_desc (filter (\<lambda>r. col_timestamp r > since) rows))"
    and "scanRows cdc r = Inr e"
    by blast
  then have "r \<in> set rows" "scanRows cdc r = Inr e"
    by (simp_all add: order_by_timestamp_desc_def)
  with tbl show ?thesis by blast
qed

lemma findEvent_sound:
  assumes "findEvent cdc fault db tableName probe = Inr (Some e)"
  shows "\<exists>rows r. db tableName = Some rows \<and> r \<in> set rows \<and> scanRows cdc r = Inr e"
proof -
  from assms obtain rows p where tbl: "db tableName = Some rows"
    and loop: "findLoop cdc (filter (findWhere probe p) rows) probe = Inr (Some e)"
    by (auto simp: findEvent_def QueryContext_def split: option.splits sum.splits if_splits)
  from findLoop_sound[OF loop] tbl show ?thesis by auto
qed

lemma lastEvent_sound:
  assumes "lastEvent cdc fault db tableName = Inr (Some e)"
  shows "\<exists>rows r. db tableName = Some rows \<and> r \<in> set rows \<and> scanRows cdc r = Inr e"
proof -
  from assms obtain rows r rest where tbl: "db tableName = Some rows"
    and top: "order_by_timestamp_desc rows = r # rest" and e: "scanRows cdc r = Inr e"
    by (auto simp: lastEvent_def scanRow_def QueryRowContext_latest_def
        split: option.splits sum.splits if_splits list.splits)
  from top have "r \<in> set (order_by_timestamp_desc rows)" by simp
  then have "r \<in> set rows" by (simp add: order_by_timestamp_desc_def)
  with tbl e show ?thesis by blast
qed

subsection \<open>Reading back what was inserted\<close>

lemma insort_key_snoc:
  "f x \<le> f r \<Longrightarrow> insort_key f x (ys @ [r]) = insort_key f x ys @ [r]"
  by (induction ys) auto

lemma sort_key_snoc:
  "\<forall>q\<in>set xs. f q \<le> f r \<Longrightarrow> sort_key f (xs @ [r]) = sort_key f xs @ [r]"
  by (induction xs) (auto simp: insort_key_snoc)

lemma order_desc_snoc:
  "\<forall>q\<in>set rows. col_timestamp q \<le> col_timestamp r \<Longrightarrow>
     order_by_timestamp_desc (rows @ [r]) = r # order_by_timestamp_desc rows"
  by (simp add: order_by_timestamp_desc_def sort_key_snoc)

lemma HasPrefix_brace_facts:
  assumes "HasPrefix js ''{''"
  shows "js \<noteq> []" and "js \<noteq> ''null''"
  using assms by (auto simp: HasPrefix_def)

lemma payload_roundtrip:
  assumes "\<forall>v. payload = Some v \<longrightarrow>
             (\<exists>js. marshal v = Inr js \<and> HasPrefix js ''{'' \<and> unmarshal js = Inr v)"
  shows "\<exists>js. (case payload of None \<Rightarrow> Inr [] | Some v \<Rightarrow> marshal v) = Inr js
            \<and> unmarshalIfValid unmarshal (NULLIF js []) = Inr payload
            \<and> (\<forall>v. payload = Some v \<longrightarrow> NULLIF js [] = Some js)"
proof (cases payload)
  case None
  then show ?thesis by (simp add: NULLIF_def unmarshalIfValid_def)
next
  case (Some v)
  with assms obtain js where js: "marshal v = Inr js" "HasPrefix js ''{''" "unmarshal js = Inr v"
    by blast
  from HasPrefix_brace_facts[OF js(2)] js Some show ?thesis
    by (simp add: NULLIF_def unmarshalIfValid_def)
qed

lemma insertEvent_roundtrip:
  fixes ev :: "'sa Event"
  assumes tbl: "db tbl = Some rows"
    and ei: "\<forall>m. DeprecatedExtraInfo ev = Some m \<longrightarrow>
               (\<exists>js. marshalExtraInfo cdc m = Inr js \<and> HasPrefix js ''{''
                     \<and> unmarshalExtraInfo cdc js = Inr m)"
    and sa: "\<forall>sa. DeprecatedSuggestedActions ev = Some sa \<longrightarrow>
               (\<exists>js. marshalSuggestedActions cdc sa = Inr js \<and> HasPrefix js ''{''
                     \<and> unmarshalSuggestedActions cdc js = Inr sa)"
  shows "\<exists>r p. insertEvent cdc None db tbl ev = (db(tbl \<mapsto> rows @ [r]), None)
            \<and> scanRows cdc r = Inr ev \<and> col_timestamp r = Time ev
            \<and> findParam cdc ev = Inr p \<and> findWhere ev p r"
proof -
  from payload_roundtrip[OF ei] obtain ej where
    ej: "(case DeprecatedExtraInfo ev of None \<Rightarrow> Inr [] | Some m \<Rightarrow> marshalExtraInfo cdc m) = Inr ej"
    and eu: "unmarshalIfValid (unmarshalExtraInfo cdc) (NULLIF ej []) = Inr (DeprecatedExtraInfo ev)"
    by blast
  from payload_roundtrip[OF sa] obtain sj where
    sj: "(case DeprecatedSuggestedActions ev of None \<Rightarrow> Inr [] | Some v \<Rightarrow> marshalSuggestedActions cdc v) = Inr sj"
    and su: "unmarshalIfValid (unmarshalSuggestedActions cdc) (NULLIF sj []) = Inr (DeprecatedSuggestedActions ev)"
    and ss: "\<forall>v. DeprecatedSuggestedActions ev = Some v \<longrightarrow> NULLIF sj [] = Some sj"
    by blast
  let ?r = "\<lparr>col_timestamp = Time ev, col_name = Name ev, col_type = Type ev,
             col_message = NULLIF (Message ev) [], col_extra_info = NULLIF ej [],
             col_suggested_actions = NULLIF sj []\<rparr>"
  have ej': "(case DeprecatedExtraInfo ev of None \<Rightarrow> Inr []
              | Some m \<Rightarrow> (case marshalExtraInfo cdc m of
                             Inl e' \<Rightarrow> Inl (Wrapped ''failed to marshal extra info'' e')
                           | Inr js \<Rightarrow> Inr js)) = Inr ej"
    using ej by (cases "DeprecatedExtraInfo ev") (auto split: sum.splits)
  have ins: "insertEvent cdc None db tbl ev = (db(tbl \<mapsto> rows @ [?r]), None)"
    using tbl by (simp add: insertEvent_def ej' sj ExecInsert_def)
  have msg: "(case NULLIF (Message ev) [] of Some msg \<Rightarrow> msg | None \<Rightarrow> []) = Message ev"
    by (simp add: NULLIF_def)
  have scan: "scanRows cdc ?r = Inr ev"
    by (simp add: scanRows_def eu su msg)
  have par: "findParam cdc ev = Inr (map_option (\<lambda>_. sj) (DeprecatedSuggestedActions ev))"
    using sj by (cases "DeprecatedSuggestedActions ev") (simp_all add: findParam_def)
  have wh: "findWhere ev (map_option (\<lambda>_. sj) (DeprecatedSuggestedActions ev)) ?r"
    using ss by (cases "DeprecatedSuggestedActions ev") (simp_all add: findWhere_def NULLIF_def)
  from ins scan par wh show ?thesis
    by (intro exI[of _ ?r] exI[of _ "map_option (\<lambda>_. sj) (DeprecatedSuggestedActions ev)"]) simp
qed

lemma findLoop_append:
  "findLoop cdc xs ev = Inr None \<Longrightarrow> findLoop cdc (xs @ ys) ev = findLoop cdc ys ev"
  by (induction xs) (auto split: sum.splits if_splits)

lemma getEvents_ok:
  assumes tbl: "db tbl = Some rows"
    and dec: "\<forall>r\<in>set rows. since < col_timestamp r \<longrightarrow> (\<exists>e. scanRows cdc r = Inr e)"
  shows "getEvents cdc None db tbl since =
           Inr (let evs = map (\<lambda>r. projr (scanRows cdc r))
                            (order_by_timestamp_desc (filter (\<lambda>r. since < col_timestamp r) rows))
                in if evs = [] then None else Some evs)"
proof -
  let ?rs = "order_by_timestamp_desc (filter (\<lambda>r. since < col_timestamp r) rows)"
  have "set ?rs = {r \<in> set rows. since < col_timestamp r}"
    by (auto simp: order_by_timestamp_desc_def)
  with dec have ok: "\<forall>r\<in>set ?rs. \<exists>e. scanRows cdc r = Inr e" by blast
  show ?thesis
    using tbl scanAll_ok[OF ok, of "[]"]
    by (simp add: getEvents_def QueryContext_def Let_def)
qed

lemma reads_after_insert:
  fixes ev :: "'sa Event"
  assumes tbl: "db (t_table t) = Some rows"
    and ei: "\<forall>m. DeprecatedExtraInfo ev = Some m \<longrightarrow>
               (\<exists>js. marshalExtraInfo cdc m = Inr js \<and> HasPrefix js ''{''
                     \<and> unmarshalExtraInfo cdc js = Inr m)"
    and sa: "\<forall>sa. DeprecatedSuggestedActions ev = Some sa \<longrightarrow>
               (\<exists>js. marshalSuggestedActions cdc sa = Inr js \<and> HasPrefix js ''{''
                     \<and> unmarshalSuggestedActions cdc js = Inr sa)"
  shows "snd (Insert cdc None t ev db) = None"
    and "(\<forall>q\<in>set rows. col_timestamp q \<le> Time ev)
           \<Longrightarrow> Latest cdc None t (fst (Insert cdc None t ev db)) = Inr (Some ev)"
    and "since < Time ev \<Longrightarrow> (\<forall>q\<in>set rows. since < col_timestamp q \<longrightarrow> (\<exists>e. scanRows cdc q = Inr e))
           \<Longrightarrow> \<exists>evs. Get cdc None t since (fst (Insert cdc None t ev db)) = Inr (Some evs)
                    \<and> ev \<in> set evs"
    and "Find cdc None t ev db = Inr None
           \<Longrightarrow> Find cdc None t ev (fst (Insert cdc None t ev db)) = Inr (Some ev)"
proof -
  from insertEvent_roundtrip[of db "t_table t" rows ev cdc, OF tbl ei sa] obtain r p where
    ins: "insertEvent cdc None db (t_table t) ev = (db(t_table t \<mapsto> rows @ [r]), None)"
    and scan: "scanRows cdc r = Inr ev" and ts: "col_timestamp r = Time ev"
    and par: "findParam cdc ev = Inr p" and wh: "findWhere ev p r"
    by blast
  let ?db' = "db(t_table t \<mapsto> rows @ [r])"
  have db': "fst (Insert cdc None t ev db) = ?db'" and tbl': "?db' (t_table t) = Some (rows @ [r])"
    by (simp_all add: Insert_def ins)
  show "snd (Insert cdc None t ev db) = None"
    by (simp add: Insert_def ins)
  show "Latest cdc None t (fst (Insert cdc None t ev db)) = Inr (Some ev)"
    if "\<forall>q\<in>set rows. col_timestamp q \<le> Time ev"
  proof -
    from that ts have "order_by_timestamp_desc (rows @ [r]) = r # order_by_timestamp_desc rows"
      by (simp add: order_desc_snoc)
    then show ?thesis
      by (simp add: db' Latest_def lastEvent_def scanRow_def QueryRowContext_latest_def scan)
  qed
  show "\<exists>evs. Get cdc None t since (fst (Insert cdc None t ev db)) = Inr (Some evs) \<and> ev \<in> set evs"
    if s: "since < Time ev"
      and d: "\<forall>q\<in>set rows. since < col_timestamp q \<longrightarrow> (\<exists>e. scanRows cdc q = Inr e)"
  proof -
    let ?rs = "order_by_timestamp_desc (filter (\<lambda>r. since < col_timestamp r) (rows @ [r]))"
    let ?evs = "map (\<lambda>r. projr (scanRows cdc r)) ?rs"
    have d': "\<forall>q\<in>set (rows @ [r]). since < col_timestamp q \<longrightarrow> (\<exists>e. scanRows cdc q = Inr e)"
      using d scan by auto
    have "r \<in> set ?rs" using s ts by (simp add: order_by_timestamp_desc_def)
    then have "projr (scanRows cdc r) \<in> set ?evs" by (simp only: set_map) (rule imageI)
    then have mem: "ev \<in> set ?evs" by (simp add: scan)
    then have "?evs \<noteq> []" by auto
    with getEvents_ok[of ?db' "t_table t" "rows @ [r]" since cdc, OF tbl' d'] have "Get cdc None t since ?db' = Inr (Some ?evs)"
      by (simp add: Get_def Let_def)
    with mem db' show ?thesis by auto
  qed
  show "Find cdc None t ev (fst (Insert cdc None t ev db)) = Inr (Some ev)"
    if "Find cdc None t ev db = Inr None"
  proof -
    from that tbl par have before: "findLoop cdc (filter (findWhere ev p) rows) ev = Inr None"
      by (simp add: Find_def findEvent_def QueryContext_def)
    have "compareEvent ev ev" by (simp add: compareEvent_iff_entries)
    then have "findLoop cdc [r] ev = Inr (Some ev)" by (simp add: scan)
    with findLoop_append[OF before, of "[r]"] wh
    have "findLoop cdc (filter (findWhere ev p) (rows @ [r])) ev = Inr (Some ev)" by simp
    then show ?thesis
      by (simp add: db' Find_def findEvent_def QueryContext_def par)
  qed
qed

subsection \<open>The message column\<close>

text \<open>
  Claim C9. A successful \<open>insertEvent\<close> appends one row whose message column is NULL when
  the event's message is empty and the message otherwise, and whatever \<open>scanRows\<close> decodes
  from that row has the event's message. An event without payloads is always inserted on
  an existing table. Every decoded event has the row's message, the empty string for
  NULL; a row with a NULL message and the same row with an empty message decode alike;
  and every event that Get, Find or Latest returns is decoded by \<open>scanRows\<close> from a row
  of the table. The round trip through the read interface: when the event's payloads (if
  it has any) serialize to JSON objects that parse back, \<open>Insert\<close> on an existing table
  succeeds, and then \<open>Latest\<close> returns the event itself when no stored row is newer,
  \<open>Get\<close> returns it among the events after any \<open>since\<close> before its time (the other
  rows after \<open>since\<close> decoding), and \<open>Find\<close> with the event as probe returns it when
  it found nothing before the insert; so the message read is the message written, the
  empty one included.
\<close>

theorem empty_message_roundtrip:
  "(\<forall>rows db'. db tableName = Some rows \<and> insertEvent cdc None db tableName ev = (db', None) \<longrightarrow>
      (\<exists>r. db' tableName = Some (rows @ [r])
          \<and> col_message r = (if Message ev = [] then None else Some (Message ev))
          \<and> (\<forall>e. scanRows cdc r = Inr e \<longrightarrow> Message e = Message ev)))
   \<and> (DeprecatedExtraInfo ev = None \<and> DeprecatedSuggestedActions ev = None \<and> db tableName \<noteq> None
        \<longrightarrow> snd (insertEvent cdc None db tableName ev) = None)
   \<and> (\<forall>r e. scanRows cdc r = Inr e \<longrightarrow> Message e = (case col_message r of None \<Rightarrow> [] | Some m \<Rightarrow> m))
   \<and> (\<forall>r. scanRows cdc (r\<lparr>col_message := None\<rparr>) = scanRows cdc (r\<lparr>col_message := Some []\<rparr>))
   \<and> (\<forall>e. (\<exists>evs. getEvents cdc fault db tableName since = Inr (Some evs) \<and> e \<in> set evs)
            \<or> findEvent cdc fault db tableName probe = Inr (Some e)
            \<or> lastEvent cdc fault db tableName = Inr (Some e)
          \<longrightarrow> (\<exists>rows r. db tableName = Some rows \<and> r \<in> set rows \<and> scanRows cdc r = Inr e
                  \<and> Message e = (case col_message r of None \<Rightarrow> [] | Some m \<Rightarrow> m)))
   \<and> (\<forall>rows. db (t_table t) = Some rows
          \<and> (\<forall>m. DeprecatedExtraInfo ev = Some m \<longrightarrow>
                (\<exists>js. marshalExtraInfo cdc m = Inr js \<and> HasPrefix js ''{''
                      \<and> unmarshalExtraInfo cdc js = Inr m))
          \<and> (\<forall>sa. DeprecatedSuggestedActions ev = Some sa \<longrightarrow>
                (\<exists>js. marshalSuggestedActions cdc sa = Inr js \<and> HasPrefix js ''{''
                      \<and> unmarshalSuggestedActions cdc js = Inr sa))
        \<longrightarrow> snd (Insert cdc None t ev db) = None
            \<and> ((\<forall>q\<in>set rows. col_timestamp q \<le> Time ev)
                 \<longrightarrow> Latest cdc None t (fst (Insert cdc None t ev db)) = Inr (Some ev))
            \<and> (since < Time ev
                 \<and> (\<forall>q\<in>set rows. since < col_timestamp q \<longrightarrow> (\<exists>e. scanRows cdc q = Inr e))
                 \<longrightarrow> (\<exists>evs. Get cdc None t since (fst (Insert cdc None t ev db)) = Inr (Some evs)
                           \<and> ev \<in> set evs))
            \<and> (Find cdc None t ev db = Inr None
                 \<longrightarrow> Find cdc None t ev (fst (Insert cdc None t ev db)) = Inr (Some ev)))"
proof (intro conjI allI impI)
  fix rows db'
  assume a: "db tableName = Some rows \<and> insertEvent cdc None db tableName ev = (db', None)"
  then obtain r where r: "db' tableName = Some (rows @ [r])"
    and m: "col_message r = NULLIF (Message ev) []"
    by (auto simp: insertEvent_def ExecInsert_def split: sum.splits option.splits)
  have "col_message r = (if Message ev = [] then None else Some (Message ev))"
    using m by (simp add: NULLIF_def)
  moreover have "\<forall>e. scanRows cdc r = Inr e \<longrightarrow> Message e = Message ev"
    using m by (auto simp: NULLIF_def dest!: scanRows_fields(4) split: if_splits)
  ultimately show "\<exists>r. db' tableName = Some (rows @ [r])
          \<and> col_message r = (if Message ev = [] then None else Some (Message ev))
          \<and> (\<forall>e. scanRows cdc r = Inr e \<longrightarrow> Message e = Message ev)"
    using r by blast
next
  assume "DeprecatedExtraInfo ev = None \<and> DeprecatedSuggestedActions ev = None \<and> db tableName \<noteq> None"
  then show "snd (insertEvent cdc None db tableName ev) = None"
    by (auto simp: insertEvent_def ExecInsert_def)
next
  fix r e assume "scanRows cdc r = Inr e"
  then show "Message e = (case col_message r of None \<Rightarrow> [] | Some m \<Rightarrow> m)"
    by (rule scanRows_fields(4))
next
  fix r show "scanRows cdc (r\<lparr>col_message := None\<rparr>) = scanRows cdc (r\<lparr>col_message := Some []\<rparr>)"
    unfolding scanRows_def
    by (cases "unmarshalIfValid (unmarshalExtraInfo cdc) (col_extra_info r)";
        cases "unmarshalIfValid (unmarshalSuggestedActions cdc) (col_suggested_actions r)")
       simp_all
next
  fix e
  assume "(\<exists>evs. getEvents cdc fault db tableName since = Inr (Some evs) \<and> e \<in> set evs)
            \<or> findEvent cdc fault db tableName probe = Inr (Some e)
            \<or> lastEvent cdc fault db tableName = Inr (Some e)"
  then have "\<exists>rows r. db tableName = Some rows \<and> r \<in> set rows \<and> scanRows cdc r = Inr e"
    using getEvents_sound findEvent_sound lastEvent_sound by blast
  then show "\<exists>rows r. db tableName = Some rows \<and> r \<in> set rows \<and> scanRows cdc r = Inr e
                  \<and> Message e = (case col_message r of None \<Rightarrow> [] | Some m \<Rightarrow> m)"
    using scanRows_fields(4) by blast
next
  fix rows
  assume h: "db (t_table t) = Some rows
          \<and> (\<forall>m. DeprecatedExtraInfo ev = Some m \<longrightarrow>
                (\<exists>js. marshalExtraInfo cdc m = Inr js \<and> HasPrefix js ''{''
                      \<and> unmarshalExtraInfo cdc js = Inr m))
          \<and> (\<forall>sa. DeprecatedSuggestedActions ev = Some sa \<longrightarrow>
                (\<exists>js. marshalSuggestedActions cdc sa = Inr js \<and> HasPrefix js ''{''
                      \<and> unmarshalSuggestedActions cdc js = Inr sa))"
  note reads = reads_after_insert[where db = db and t = t and cdc = cdc, OF h[THEN conjunct1]
                 h[THEN conjunct2, THEN conjunct1] h[THEN conjunct2, THEN conjunct2]]
  show "snd (Insert cdc None t ev db) = None"
    by (rule reads(1))
  show "Latest cdc None t (fst (Insert cdc None t ev db)) = Inr (Some ev)"
    if "\<forall>q\<in>set rows. col_timestamp q \<le> Time ev"
    using that by (rule reads(2))
  show "\<exists>evs. Get cdc None t since (fst (Insert cdc None t ev db)) = Inr (Some evs) \<and> ev \<in> set evs"
    if "since < Time ev
          \<and> (\<forall>q\<in>set rows. since < col_timestamp q \<longrightarrow> (\<exists>e. scanRows cdc q = Inr e))"
    using that reads(3)[of since] by blast
  show "Find cdc None t ev (fst (Insert cdc None t ev db)) = Inr (Some ev)"
    if "Find cdc None t ev db = Inr None"
    using that by (rule reads(4))
qed


theorem empty_message_roundtrip_witness:
  "fst (Insert example_codec None (example_table ''t'') (example_event 7 [] None None)
          (single_table (defaultTableName ''t'') [example_row 6 (Some ''Test message'') None None]))
       (t_table (example_table ''t''))
     = Some [example_row 6 (Some ''Test message'') None None, example_row 7 None None None]
   \<and> snd (Insert example_codec None (example_table ''t'') (example_event 7 [] None None)
          (single_table (defaultTableName ''t'') [example_row 6 (Some ''Test message'') None None]))
     = None
   \<and> Latest example_codec None (example_table ''t'')
        (fst (Insert example_codec None (example_table ''t'') (example_event 7 [] None None)
          (single_table (defaultTableName ''t'') [example_row 6 (Some ''Test message'') None None])))
     = Inr (Some (example_event 7 [] None None))
   \<and> Find example_codec None (example_table ''t'') (example_event 7 [] None None)
        (fst (Insert example_codec None (example_table ''t'') (example_event 7 [] None None)
          (single_table (defaultTableName ''t'') [example_row 6 (Some ''Test message'') None None])))
     = Inr (Some (example_event 7 [] None None))
   \<and> Get example_codec None (example_table ''t'') 0
        (fst (Insert example_codec None (example_table ''t'') (example_event 7 [] None None)
          (single_table (defaultTableName ''t'') [example_row 6 (Some ''Test message'') None None])))
     = Inr (Some [example_event 7 [] None None, example_event 6 ''Test message'' None None])
   \<and> Message (example_event 7 [] None None) = []"
proof -
  let ?t = "example_table ''t''"
  let ?ev = "example_event 7 [] None None"
  let ?old = "example_row 6 (Some ''Test message'') None None"
  let ?db = "single_table (defaultTableName ''t'') [?old]"
  have tbl: "?db (t_table ?t) = Some [?old]"
    by (simp add: single_table_def example_table_def)
  have ei: "\<forall>m. DeprecatedExtraInfo ?ev = Some m \<longrightarrow>
              (\<exists>js. marshalExtraInfo example_codec m = Inr js \<and> HasPrefix js ''{''
                    \<and> unmarshalExtraInfo example_codec js = Inr m)"
    by (simp add: example_event_def)
  have sa: "\<forall>sa. DeprecatedSuggestedActions ?ev = Some sa \<longrightarrow>
              (\<exists>js. marshalSuggestedActions example_codec sa = Inr js \<and> HasPrefix js ''{''
                    \<and> unmarshalSuggestedActions example_codec js = Inr sa)"
    by (simp add: example_event_def)
  note rt = empty_message_roundtrip[where db = ?db and t = ?t and cdc = example_codec and ev = ?ev,
              THEN conjunct2, THEN conjunct2, THEN conjunct2, THEN conjunct2, THEN conjunct2,
              THEN spec, THEN mp, OF conjI[OF tbl conjI[OF ei sa]]]
  have older: "\<forall>q\<in>set [?old]. col_timestamp q \<le> Time ?ev"
    by (simp add: example_row_def example_event_def)
  have cand: "\<not> findWhere ?ev None ?old"
    by (simp add: findWhere_def example_event_def example_row_def)
  have par: "findParam example_codec ?ev = Inr None"
    by (simp add: findParam_def example_event_def)
  have before: "Find example_codec None ?t ?ev ?db = Inr None"
    by (simp add: Find_def findEvent_def par QueryContext_def tbl cand)
  have ins: "snd (Insert example_codec None ?t ?ev ?db) = None"
    by (rule rt[THEN conjunct1])
  have latest: "Latest example_codec None ?t (fst (Insert example_codec None ?t ?ev ?db))
                  = Inr (Some ?ev)"
    by (rule rt[THEN conjunct2, THEN conjunct1, THEN mp, OF older])
  have find: "Find example_codec None ?t ?ev (fst (Insert example_codec None ?t ?ev ?db))
                = Inr (Some ?ev)"
    by (rule rt[THEN conjunct2, THEN conjunct2, THEN conjunct2, THEN mp, OF before])
  have stored: "fst (Insert example_codec None ?t ?ev ?db) (t_table ?t)
                  = Some [?old, example_row 7 None None None]"
  proof -
    have "insertEvent example_codec None ?db (t_table ?t) ?ev
            = ExecInsert None ?db (t_table ?t) (example_row 7 None None None)"
      by (simp add: insertEvent_def example_event_def example_row_def NULLIF_def)
    then show ?thesis
      by (simp add: Insert_def ExecInsert_def tbl)
  qed
  have sc: "scanRows example_codec (example_row ts msg None None)
              = Inr (example_event ts (case msg of None \<Rightarrow> [] | Some m \<Rightarrow> m) None None)" for ts msg
    by (simp add: scanRows_def unmarshalIfValid_def example_event_def example_row_def)
  have ts: "col_timestamp (example_row ts msg None None) = ts" for ts msg
    by (simp add: example_row_def)
  have get: "Get example_codec None ?t 0 (fst (Insert example_codec None ?t ?ev ?db))
               = Inr (Some [?ev, example_event 6 ''Test message'' None None])"
    by (simp add: Get_def getEvents_def QueryContext_def stored order_by_timestamp_desc_def ts sc)
  have msg: "Message ?ev = []"
    by (simp add: example_event_def)
  from stored ins latest find get msg show ?thesis by blast
qed

subsection \<open>Get\<close>

lemma order_desc_sorted:
  "sorted_wrt (\<lambda>r r'. col_timestamp r \<ge> col_timestamp r') (order_by_timestamp_desc rows)"
proof -
  have "sorted (map col_timestamp (sort_key col_timestamp rows))"
    by simp
  then have "sorted_wrt (\<lambda>r r'. col_timestamp r \<le> col_timestamp r') (sort_key col_timestamp rows)"
    by (simp add: sorted_map)
  then show ?thesis
    by (simp add: order_by_timestamp_desc_def sorted_wrt_rev)
qed

text \<open>
  Claim C3, amended. On an existing table whose rows after \<open>since\<close> all decode, and with
  the engine executing the query, \<open>Get\<close> returns the decoded rows whose timestamp is
  strictly greater than \<open>since\<close>, each as often as it is stored and no other, newest
  first: the timestamps never increase along the result (events with equal timestamps
  are neighbours). When no row qualifies the result is nil, not an empty collection.
\<close>

theorem getEvents_newest_first:
  assumes tbl: "db (t_table t) = Some rows"
    and dec: "\<forall>r\<in>set rows. since < col_timestamp r \<longrightarrow> (\<exists>e. scanRows cdc r = Inr e)"
  shows "\<exists>rs evs.
           mset rs = mset (filter (\<lambda>r. since < col_timestamp r) rows)
           \<and> list_all2 (\<lambda>r e. scanRows cdc r = Inr e) rs evs
           \<and> sorted_wrt (\<lambda>e e'. Time e \<ge> Time e') evs
           \<and> Get cdc None t since db = Inr (if evs = [] then None else Some evs)"
proof -
  let ?rs = "order_by_timestamp_desc (filter (\<lambda>r. since < col_timestamp r) rows)"
  let ?f = "\<lambda>r. projr (scanRows cdc r)"
  let ?evs = "map ?f ?rs"
  have set_rs: "set ?rs = {r \<in> set rows. since < col_timestamp r}"
    by (auto simp: order_by_timestamp_desc_def)
  have ok: "\<forall>r\<in>set ?rs. \<exists>e. scanRows cdc r = Inr e"
    using dec set_rs by blast
  then have each: "\<forall>r\<in>set ?rs. scanRows cdc r = Inr (?f r)"
    by fastforce
  have m: "mset ?rs = mset (filter (\<lambda>r. since < col_timestamp r) rows)"
    by (simp add: order_by_timestamp_desc_def)
  have l: "list_all2 (\<lambda>r e. scanRows cdc r = Inr e) ?rs ?evs"
    using each by (simp add: list_all2_map2 list_all2_same)
  have times: "\<forall>r\<in>set ?rs. Time (?f r) = col_timestamp r"
    using each scanRows_fields(1) by blast
  have "sorted_wrt (\<lambda>r r'. Time (?f r) \<ge> Time (?f r')) ?rs"
    using order_desc_sorted[of "filter (\<lambda>r. since < col_timestamp r) rows"] times
    by (auto elim!: sorted_wrt_mono_rel[rotated])
  then have s: "sorted_wrt (\<lambda>e e'. Time e \<ge> Time e') ?evs"
    by (simp add: sorted_wrt_map)
  have g: "Get cdc None t since db = Inr (if ?evs = [] then None else Some ?evs)"
    using tbl scanAll_ok[OF ok, of "[]"]
    by (simp add: Get_def getEvents_def QueryContext_def)
  from m l s g show ?thesis by blast
qed


theorem getEvents_newest_first_witness:
  "single_table (defaultTableName ''t'')
       [example_row 1 None None None, example_row 9 None None None, example_row 5 None None None]
       (t_table (example_table ''t''))
     = Some [example_row 1 None None None, example_row 9 None None None, example_row 5 None None None]
   \<and> Get example_codec None (example_table ''t'') 1
        (single_table (defaultTableName ''t'')
           [example_row 1 None None None, example_row 9 None None None, example_row 5 None None None])
       = Inr (Some [example_event 9 [] None None, example_event 5 [] None None])
   \<and> Get example_codec None (example_table ''t'') 9
        (single_table (defaultTableName ''t'')
           [example_row 1 None None None, example_row 9 None None None, example_row 5 None None None])
       = Inr None"
proof -
  let ?rows = "[example_row 1 None None None, example_row 9 None None None, example_row 5 None None None]"
  let ?db = "single_table (defaultTableName ''t'') ?rows"
  have sc: "scanRows example_codec (example_row ts None None None) = Inr (example_event ts [] None None)" for ts
    by (simp add: scanRows_def unmarshalIfValid_def example_event_def example_row_def)
  have h1: "?db (t_table (example_table ''t'')) = Some ?rows"
    by (simp add: single_table_def example_table_def)
  have h2: "\<forall>r\<in>set ?rows. since < col_timestamp r \<longrightarrow> (\<exists>e. scanRows example_codec r = Inr e)" for since
    by (simp add: sc)
  from getEvents_newest_first[of ?db "example_table ''t''" ?rows 1 example_codec, OF h1 h2]
  obtain rs evs where "mset rs = mset (filter (\<lambda>r. 1 < col_timestamp r) ?rows)"
    and "list_all2 (\<lambda>r e. scanRows example_codec r = Inr e) rs evs"
    and g1: "Get example_codec None (example_table ''t'') 1 ?db = Inr (if evs = [] then None else Some evs)"
    by blast
  have e1: "Get example_codec None (example_table ''t'') 1 ?db
       = Inr (Some [example_event 9 [] None None, example_event 5 [] None None])"
    by (simp add: Get_def getEvents_def QueryContext_def h1 order_by_timestamp_desc_def sc)
       (simp add: example_row_def sc[unfolded example_row_def])
  from getEvents_newest_first[of ?db "example_table ''t''" ?rows 9 example_codec, OF h1 h2]
  obtain rs' evs' where "mset rs' = mset (filter (\<lambda>r. 9 < col_timestamp r) ?rows)"
    and "list_all2 (\<lambda>r e. scanRows example_codec r = Inr e) rs' evs'"
    and g9: "Get example_codec None (example_table ''t'') 9 ?db = Inr (if evs' = [] then None else Some evs')"
    by blast
  then have "evs' = []" by (simp add: example_row_def)
  with g9 have e9: "Get example_codec None (example_table ''t'') 9 ?db = Inr None" by simp
  from h1 e1 e9 show ?thesis by blast
qed

text \<open>
  The order is not strictly descending: two stored events with the same timestamp are
  both returned, one after the other (the one inserted last comes first).
\<close>

theorem getEvents_strictly_descending_counterexample:
  "Get example_codec None (example_table ''t'') 0
     (single_table (defaultTableName ''t'')
        [example_row 5 (Some ''first'') None None, example_row 5 (Some ''second'') None None])
     = Inr (Some [example_event 5 ''second'' None None, example_event 5 ''first'' None None])
   \<and> \<not> Time (example_event 5 ''second'' None None) > Time (example_event 5 ''first'' None None)"
  by (simp add: Get_def getEvents_def QueryContext_def single_table_def example_table_def
      order_by_timestamp_desc_def example_row_def scanRows_def unmarshalIfValid_def example_event_def)

subsection \<open>Find\<close>

lemma find_filter: "List.find Q (filter P xs) = List.find (\<lambda>x. P x \<and> Q x) xs"
  by (induction xs) auto

lemma findLoop_find:
  assumes "\<forall>r\<in>set rs. \<exists>e. scanRows cdc r = Inr e"
  shows "findLoop cdc rs ev =
           (case List.find (\<lambda>r. case scanRows cdc r of Inl _ \<Rightarrow> False
                                 | Inr stored \<Rightarrow> compareEvent stored ev) rs of
              None \<Rightarrow> Inr None
            | Some r \<Rightarrow> map_sum id Some (scanRows cdc r))"
  using assms
proof (induction rs)
  case Nil
  then show ?case by simp
next
  case (Cons r rs)
  then obtain e where e: "scanRows cdc r = Inr e" by auto
  show ?case
  proof (cases "compareEvent e ev")
    case True
    with e show ?thesis by simp
  next
    case False
    with e Cons show ?thesis by simp
  qed
qed

lemma findParam_serialized:
  assumes "\<forall>sa. DeprecatedSuggestedActions ev = Some sa \<longrightarrow> marshalSuggestedActions cdc sa = Inr serialized"
  shows "findParam cdc ev = Inr (map_option (\<lambda>_. serialized) (DeprecatedSuggestedActions ev))"
  using assms by (cases "DeprecatedSuggestedActions ev") (simp_all add: findParam_def)

lemma findWhere_candidate:
  "findWhere ev (map_option (\<lambda>_. serialized) (DeprecatedSuggestedActions ev)) r
     = find_candidate ev serialized r"
  by (cases "DeprecatedSuggestedActions ev") (auto simp: findWhere_def find_candidate_def)

text \<open>
  Claim C1. On an existing table, with the engine executing the query, the probe's
  suggested actions (if any) serializing to \<open>serialized\<close> and every candidate row
  decoding, \<open>Find\<close> returns the first row of the table, in scan order, that is a match
  in the sense of \<open>find_match\<close>: time, name and type equal to the probe's, the message
  too when the probe's is non-empty, the serialized suggested actions too when the probe
  has any, and the decoded extra info passing \<open>compareEvent\<close> against the probe. The
  result is that row decoded; when no row matches, it is nil with no error.
\<close>

theorem findEvent_first_match:
  assumes tbl: "db (t_table t) = Some rows"
    and ser: "\<forall>sa. DeprecatedSuggestedActions ev = Some sa \<longrightarrow> marshalSuggestedActions cdc sa = Inr serialized"
    and dec: "\<forall>r\<in>set rows. find_candidate ev serialized r \<longrightarrow> (\<exists>e. scanRows cdc r = Inr e)"
  shows "Find cdc None t ev db =
           (case List.find (find_match cdc ev serialized) rows of
              None \<Rightarrow> Inr None
            | Some r \<Rightarrow> map_sum id Some (scanRows cdc r))
         \<and> ((\<forall>r\<in>set rows. \<not> find_match cdc ev serialized r) \<longrightarrow> Find cdc None t ev db = Inr None)
         \<and> (\<forall>r. List.find (find_match cdc ev serialized) rows = Some r \<longrightarrow>
               (\<exists>stored. scanRows cdc r = Inr stored \<and> compareEvent stored ev
                  \<and> Find cdc None t ev db = Inr (Some stored)))"
proof -
  let ?cands = "filter (find_candidate ev serialized) rows"
  have c: "\<forall>r\<in>set ?cands. \<exists>e. scanRows cdc r = Inr e"
    using dec by simp
  have w: "findWhere ev (map_option (\<lambda>_. serialized) (DeprecatedSuggestedActions ev))
             = find_candidate ev serialized"
    by (rule ext) (rule findWhere_candidate)
  have "Find cdc None t ev db = findLoop cdc ?cands ev"
    using tbl by (simp add: Find_def findEvent_def findParam_serialized[OF ser] QueryContext_def w)
  also have "\<dots> = (case List.find (\<lambda>r. case scanRows cdc r of Inl _ \<Rightarrow> False
                                 | Inr stored \<Rightarrow> compareEvent stored ev) ?cands of
              None \<Rightarrow> Inr None
            | Some r \<Rightarrow> map_sum id Some (scanRows cdc r))"
    by (rule findLoop_find[OF c])
  also have "List.find (\<lambda>r. case scanRows cdc r of Inl _ \<Rightarrow> False
                                 | Inr stored \<Rightarrow> compareEvent stored ev) ?cands
               = List.find (find_match cdc ev serialized) rows"
  proof -
    have "find_match cdc ev serialized
            = (\<lambda>r. find_candidate ev serialized r
                    \<and> (case scanRows cdc r of Inl _ \<Rightarrow> False | Inr stored \<Rightarrow> compareEvent stored ev))"
      by (rule ext) (simp add: find_match_def)
    then show ?thesis by (simp add: find_filter)
  qed
  finally have main: "Find cdc None t ev db =
           (case List.find (find_match cdc ev serialized) rows of
              None \<Rightarrow> Inr None
            | Some r \<Rightarrow> map_sum id Some (scanRows cdc r))" .
  have none: "(\<forall>r\<in>set rows. \<not> find_match cdc ev serialized r) \<longrightarrow> Find cdc None t ev db = Inr None"
    by (simp add: main find_None_iff[THEN iffD2])
  have some: "\<exists>stored. scanRows cdc r = Inr stored \<and> compareEvent stored ev
                  \<and> Find cdc None t ev db = Inr (Some stored)"
    if f: "List.find (find_match cdc ev serialized) rows = Some r" for r
  proof -
    from f have "find_match cdc ev serialized r"
      by (auto simp: find_Some_iff)
    then obtain stored where "scanRows cdc r = Inr stored" "compareEvent stored ev"
      by (auto simp: find_match_def split: sum.splits)
    with f main show ?thesis by simp
  qed
  from main none some show ?thesis by blast
qed

lemma example_scan_ab:
  "scanRows example_codec (example_row ts None (Some ''{a:b}'') (Some ''{second}''))
     = Inr (example_event ts [] (Some (fmap_of_list [(''a'', ''b'')])) (Some ''second''))"
  by (simp add: scanRows_def unmarshalIfValid_def HasPrefix_def example_codec_def
      example_unmarshalExtraInfo_def example_unmarshalSuggestedActions_def
      example_row_def example_event_def)

lemma example_scan_abcd:
  "scanRows example_codec (example_row ts None (Some ''{a:b,c:d}'') (Some ''{first}''))
     = Inr (example_event ts [] (Some (fmap_of_list [(''a'', ''b''), (''c'', ''d'')])) (Some ''first''))"
  by (simp add: scanRows_def unmarshalIfValid_def HasPrefix_def example_codec_def
      example_unmarshalExtraInfo_def example_unmarshalSuggestedActions_def
      example_row_def example_event_def)

lemma example_compare_abcd:
  "\<not> compareEvent (example_event ts [] (Some (fmap_of_list [(''a'', ''b''), (''c'', ''d'')])) (Some ''first''))
                  (example_event ts' [] (Some (fmap_of_list [(''a'', ''b'')])) None)"
  by (simp add: compareEvent_def len_def entries_def example_event_def fmdom_of_list fcard_finsert_if)

lemma example_compare_ab:
  "compareEvent (example_event ts [] (Some (fmap_of_list [(''a'', ''b'')])) (Some ''second''))
                (example_event ts' [] (Some (fmap_of_list [(''a'', ''b'')])) None)"
  by (simp add: compareEvent_iff_entries example_event_def)

theorem findEvent_first_match_witness:
  "single_table (defaultTableName ''t'')
       [example_row 5 None (Some ''{a:b,c:d}'') (Some ''{first}''),
        example_row 5 None (Some ''{a:b}'') (Some ''{second}'')]
       (t_table (example_table ''t''))
     = Some [example_row 5 None (Some ''{a:b,c:d}'') (Some ''{first}''),
             example_row 5 None (Some ''{a:b}'') (Some ''{second}'')]
   \<and> Find example_codec None (example_table ''t'')
        (example_event 5 [] (Some (fmap_of_list [(''a'', ''b'')])) None)
        (single_table (defaultTableName ''t'')
           [example_row 5 None (Some ''{a:b,c:d}'') (Some ''{first}''),
            example_row 5 None (Some ''{a:b}'') (Some ''{second}'')])
       = Inr (Some (example_event 5 [] (Some (fmap_of_list [(''a'', ''b'')])) (Some ''second'')))
   \<and> Find example_codec None (example_table ''t'')
        (example_event 6 [] (Some (fmap_of_list [(''a'', ''b'')])) None)
        (single_table (defaultTableName ''t'')
           [example_row 5 None (Some ''{a:b,c:d}'') (Some ''{first}''),
            example_row 5 None (Some ''{a:b}'') (Some ''{second}'')])
       = Inr None"
proof -
  let ?r1 = "example_row 5 None (Some ''{a:b,c:d}'') (Some ''{first}'')"
  let ?r2 = "example_row 5 None (Some ''{a:b}'') (Some ''{second}'')"
  let ?db = "single_table (defaultTableName ''t'') [?r1, ?r2]"
  let ?probe = "\<lambda>ts. example_event ts [] (Some (fmap_of_list [(''a'', ''b'')])) None"
  have h1: "?db (t_table (example_table ''t'')) = Some [?r1, ?r2]"
    by (simp add: single_table_def example_table_def)
  have h2: "\<forall>sa. DeprecatedSuggestedActions (?probe ts) = Some sa
              \<longrightarrow> marshalSuggestedActions example_codec sa = Inr []" for ts
    by (simp add: example_event_def)
  have h3: "\<forall>r\<in>set [?r1, ?r2]. find_candidate (?probe ts) [] r
              \<longrightarrow> (\<exists>e. scanRows example_codec r = Inr e)" for ts
    by (simp add: example_scan_ab example_scan_abcd del: fmap_of_list_simps)
  have c: "find_candidate (?probe ts) [] ?r1 \<longleftrightarrow> ts = 5" "find_candidate (?probe ts) [] ?r2 \<longleftrightarrow> ts = 5" for ts
    by (auto simp: find_candidate_def example_event_def example_row_def)
  have m: "\<not> find_match example_codec (?probe 5) [] ?r1" "find_match example_codec (?probe 5) [] ?r2"
      "\<not> find_match example_codec (?probe 6) [] ?r1" "\<not> find_match example_codec (?probe 6) [] ?r2"
    by (simp_all add: find_match_def c example_scan_ab example_scan_abcd
        example_compare_ab example_compare_abcd del: fmap_of_list_simps)
  from findEvent_first_match[of ?db "example_table ''t''" "[?r1, ?r2]" "?probe 5" example_codec "[]",
         OF h1 h2 h3, THEN conjunct1]
  have f5: "Find example_codec None (example_table ''t'') (?probe 5) ?db
              = Inr (Some (example_event 5 [] (Some (fmap_of_list [(''a'', ''b'')])) (Some ''second'')))"
    by (simp add: m example_scan_ab del: fmap_of_list_simps)
  from findEvent_first_match[of ?db "example_table ''t''" "[?r1, ?r2]" "?probe 6" example_codec "[]",
         OF h1 h2 h3, THEN conjunct1]
  have f6: "Find example_codec None (example_table ''t'') (?probe 6) ?db = Inr None"
    by (simp add: m del: fmap_of_list_simps)
  from h1 f5 f6 show ?thesis by blast
qed

subsection \<open>Decoding stored payloads\<close>

lemma HasPrefix_brace: "s \<noteq> [] \<Longrightarrow> HasPrefix s ''{'' \<longleftrightarrow> hd s = CHR ''{''"
  by (cases s) (simp_all add: HasPrefix_def)

lemma unmarshal_failure_not_ErrNoRows: "unmarshal_failure e \<Longrightarrow> e \<noteq> ErrNoRows"
  by (cases e) simp_all

lemma findLoop_fails:
  assumes "\<forall>q\<in>set pre. \<exists>stored. scanRows cdc q = Inr stored \<and> \<not> compareEvent stored ev"
    and "scanRows cdc r = Inl e"
  shows "findLoop cdc (pre @ r # post) ev = Inl e"
  using assms by (induction pre) auto

lemma scanRows_Inl_iff:
  "scanRows cdc r = Inl e \<longleftrightarrow>
     (\<exists>e0. (unmarshalIfValid (unmarshalExtraInfo cdc) (col_extra_info r) = Inl e0
              \<and> e = Wrapped ''failed to unmarshal extra info'' e0)
          \<or> ((\<exists>v. unmarshalIfValid (unmarshalExtraInfo cdc) (col_extra_info r) = Inr v)
              \<and> unmarshalIfValid (unmarshalSuggestedActions cdc) (col_suggested_actions r) = Inl e0
              \<and> e = Wrapped ''failed to unmarshal suggested actions'' e0))"
  by (cases "unmarshalIfValid (unmarshalExtraInfo cdc) (col_extra_info r)";
      cases "unmarshalIfValid (unmarshalSuggestedActions cdc) (col_suggested_actions r)")
     (auto simp: scanRows_def)

lemma getEvents_fails:
  assumes tbl: "db tableName = Some rows" and r: "r \<in> set rows" "since < col_timestamp r"
    and e: "scanRows cdc r = Inl e"
  shows "\<exists>e'. getEvents cdc None db tableName since = Inl e' \<and> unmarshal_failure e'"
proof -
  let ?rs = "order_by_timestamp_desc (filter (\<lambda>r. since < col_timestamp r) rows)"
  from r have "r \<in> set ?rs" by (simp add: order_by_timestamp_desc_def)
  from scanAll_fails[OF this e, of "[]"] obtain r' e' where
    e': "scanRows cdc r' = Inl e'" and f: "scanAll cdc ?rs [] = Inl e'" by blast
  from f tbl have "getEvents cdc None db tableName since = Inl e'"
    by (simp add: getEvents_def QueryContext_def)
  with scanRows_error[OF e'] show ?thesis by blast
qed

lemma lastEvent_fails:
  assumes tbl: "db tableName = Some rows" and top: "order_by_timestamp_desc rows = r # rest"
    and e: "scanRows cdc r = Inl e"
  shows "lastEvent cdc None db tableName = Inl e"
  using tbl top e unmarshal_failure_not_ErrNoRows[OF scanRows_error[OF e]]
  by (simp add: lastEvent_def scanRow_def QueryRowContext_latest_def)

text \<open>
  Claim C4. \<open>unmarshalIfValid\<close> yields absent, with no error, on SQL NULL, on the empty
  string and on the string \<open>null\<close>; on any other value that does not begin with \<open>{\<close>
  it fails with the invalid-JSON error; on a value that begins with \<open>{\<close> it is what the
  JSON parser returns, a parse failure included. \<open>scanRows\<close> fails exactly when decoding
  one of the two payload columns fails, with that error wrapped as "failed to unmarshal
  extra info" or "failed to unmarshal suggested actions". Such a row is never skipped:
  \<open>Get\<close> fails with a wrapped unmarshal error when any row after \<open>since\<close> fails to
  decode, \<open>Find\<close> fails with the row's error when the row is a candidate that no
  matching candidate precedes, and \<open>Latest\<close> fails with it when the row is the one the
  query selects: the row inserted last among those with the greatest timestamp.
\<close>

theorem unmarshalIfValid_decode_rules:
  "unmarshalIfValid unmarshal None = Inr None
   \<and> unmarshalIfValid unmarshal (Some []) = Inr None
   \<and> unmarshalIfValid unmarshal (Some ''null'') = Inr None
   \<and> (s \<noteq> [] \<and> s \<noteq> ''null'' \<and> hd s \<noteq> CHR ''{''
        \<longrightarrow> unmarshalIfValid unmarshal (Some s) = Inl (InvalidJSON s))
   \<and> (s \<noteq> [] \<and> hd s = CHR ''{''
        \<longrightarrow> unmarshalIfValid unmarshal (Some s) = map_sum id Some (unmarshal s))
   \<and> (\<forall>e. scanRows cdc r = Inl e \<longleftrightarrow>
         (\<exists>e0. (unmarshalIfValid (unmarshalExtraInfo cdc) (col_extra_info r) = Inl e0
                  \<and> e = Wrapped ''failed to unmarshal extra info'' e0)
              \<or> ((\<exists>v. unmarshalIfValid (unmarshalExtraInfo cdc) (col_extra_info r) = Inr v)
                  \<and> unmarshalIfValid (unmarshalSuggestedActions cdc) (col_suggested_actions r) = Inl e0
                  \<and> e = Wrapped ''failed to unmarshal suggested actions'' e0)))
   \<and> (\<forall>e. scanRows cdc r = Inl e \<longrightarrow> unmarshal_failure e)
   \<and> (\<forall>rows e. db (t_table t) = Some rows \<and> r \<in> set rows \<and> since < col_timestamp r
                 \<and> scanRows cdc r = Inl e
         \<longrightarrow> (\<exists>e'. Get cdc None t since db = Inl e' \<and> unmarshal_failure e'))
   \<and> (\<forall>rows p pre post e.
         db (t_table t) = Some rows \<and> findParam cdc ev = Inr p
         \<and> filter (findWhere ev p) rows = pre @ r # post
         \<and> (\<forall>q\<in>set pre. \<exists>stored. scanRows cdc q = Inr stored \<and> \<not> compareEvent stored ev)
         \<and> scanRows cdc r = Inl e
         \<longrightarrow> Find cdc None t ev db = Inl e)
   \<and> (\<forall>rows rest e. db (t_table t) = Some rows \<and> order_by_timestamp_desc rows = r # rest
                      \<and> scanRows cdc r = Inl e
         \<longrightarrow> Latest cdc None t db = Inl e)
   \<and> (\<forall>older e. db (t_table t) = Some (older @ [r])
                  \<and> (\<forall>q\<in>set older. col_timestamp q \<le> col_timestamp r)
                  \<and> scanRows cdc r = Inl e
         \<longrightarrow> Latest cdc None t db = Inl e)"
proof (intro conjI allI impI)
  show "unmarshalIfValid unmarshal None = Inr None"
    by (simp add: unmarshalIfValid_def)
  show "unmarshalIfValid unmarshal (Some []) = Inr None"
    by (simp add: unmarshalIfValid_def)
  show "unmarshalIfValid unmarshal (Some ''null'') = Inr None"
    by (simp add: unmarshalIfValid_def)
  show "unmarshalIfValid unmarshal (Some s) = Inl (InvalidJSON s)"
    if "s \<noteq> [] \<and> s \<noteq> ''null'' \<and> hd s \<noteq> CHR ''{''"
    using that by (simp add: unmarshalIfValid_def HasPrefix_brace)
  show "unmarshalIfValid unmarshal (Some s) = map_sum id Some (unmarshal s)"
    if "s \<noteq> [] \<and> hd s = CHR ''{''"
  proof -
    from that have "s \<noteq> ''null''" by auto
    with that show ?thesis
      by (cases "unmarshal s") (simp_all add: unmarshalIfValid_def HasPrefix_brace)
  qed
  show "scanRows cdc r = Inl e \<longleftrightarrow>
         (\<exists>e0. (unmarshalIfValid (unmarshalExtraInfo cdc) (col_extra_info r) = Inl e0
                  \<and> e = Wrapped ''failed to unmarshal extra info'' e0)
              \<or> ((\<exists>v. unmarshalIfValid (unmarshalExtraInfo cdc) (col_extra_info r) = Inr v)
                  \<and> unmarshalIfValid (unmarshalSuggestedActions cdc) (col_suggested_actions r) = Inl e0
                  \<and> e = Wrapped ''failed to unmarshal suggested actions'' e0))" for e
    by (rule scanRows_Inl_iff)
  show "unmarshal_failure e" if "scanRows cdc r = Inl e" for e
    using that by (rule scanRows_error)
  show "\<exists>e'. Get cdc None t since db = Inl e' \<and> unmarshal_failure e'"
    if "db (t_table t) = Some rows \<and> r \<in> set rows \<and> since < col_timestamp r
          \<and> scanRows cdc r = Inl e" for rows e
    using that getEvents_fails[of db "t_table t" rows r since cdc e] by (simp add: Get_def)
  show "Find cdc None t ev db = Inl e"
    if "db (t_table t) = Some rows \<and> findParam cdc ev = Inr p
         \<and> filter (findWhere ev p) rows = pre @ r # post
         \<and> (\<forall>q\<in>set pre. \<exists>stored. scanRows cdc q = Inr stored \<and> \<not> compareEvent stored ev)
         \<and> scanRows cdc r = Inl e" for rows p pre post e
    using that findLoop_fails[of pre cdc ev r e post]
    by (simp add: Find_def findEvent_def QueryContext_def)
  show "Latest cdc None t db = Inl e"
    if "db (t_table t) = Some rows \<and> order_by_timestamp_desc rows = r # rest
          \<and> scanRows cdc r = Inl e" for rows rest e
    using that lastEvent_fails[of db "t_table t" rows r rest cdc e] by (simp add: Latest_def)
  show "Latest cdc None t db = Inl e"
    if h: "db (t_table t) = Some (older @ [r])
          \<and> (\<forall>q\<in>set older. col_timestamp q \<le> col_timestamp r)
          \<and> scanRows cdc r = Inl e" for older e
  proof -
    from h have "order_by_timestamp_desc (older @ [r]) = r # order_by_timestamp_desc older"
      by (simp add: order_desc_snoc)
    with h lastEvent_fails[of db "t_table t" "older @ [r]" r "order_by_timestamp_desc older" cdc e]
    show ?thesis by (simp add: Latest_def)
  qed
qed


theorem unmarshalIfValid_decode_rules_witness:
  "unmarshalIfValid example_unmarshalExtraInfo (Some ''[1, 2, 3]'') = Inl (InvalidJSON ''[1, 2, 3]'')
   \<and> unmarshalIfValid example_unmarshalExtraInfo (Some ''{a:b}'')
       = Inr (Some (fmap_of_list [(''a'', ''b'')]))
   \<and> scanRows example_codec (example_row 6 None (Some ''{invalid_json'') (Some ''{invalid_json''))
       = Inl (Wrapped ''failed to unmarshal extra info'' (JSONError ''{invalid_json''))
   \<and> Get example_codec None (example_table ''t'') 0
        (single_table (defaultTableName ''t'')
           [example_row 5 None None None,
            example_row 6 None (Some ''{invalid_json'') (Some ''{invalid_json'')])
       = Inl (Wrapped ''failed to unmarshal extra info'' (JSONError ''{invalid_json''))
   \<and> Latest example_codec None (example_table ''t'')
        (single_table (defaultTableName ''t'')
           [example_row 5 None None None,
            example_row 6 None (Some ''{invalid_json'') (Some ''{invalid_json'')])
       = Inl (Wrapped ''failed to unmarshal extra info'' (JSONError ''{invalid_json''))
   \<and> Find example_codec None (example_table ''t'') (example_event 6 [] None None)
        (single_table (defaultTableName ''t'')
           [example_row 5 None None None,
            example_row 6 None (Some ''{invalid_json'') (Some ''{invalid_json'')])
       = Inl (Wrapped ''failed to unmarshal extra info'' (JSONError ''{invalid_json''))
   \<and> Latest example_codec None (example_table ''t'')
        (single_table (defaultTableName ''t'')
           [example_row 6 None None None,
            example_row 6 None (Some ''{invalid_json'') (Some ''{invalid_json'')])
       = Inl (Wrapped ''failed to unmarshal extra info'' (JSONError ''{invalid_json''))
   \<and> Latest example_codec None (example_table ''t'')
        (single_table (defaultTableName ''t'')
           [example_row 6 None (Some ''{invalid_json'') (Some ''{invalid_json''),
            example_row 6 None None None])
       = Inr (Some (example_event 6 [] None None))"
proof -
  let ?good = "example_row 5 None None None"
  let ?bad = "example_row 6 None (Some ''{invalid_json'') (Some ''{invalid_json'')"
  let ?db = "single_table (defaultTableName ''t'') [?good, ?bad]"
  let ?err = "Wrapped ''failed to unmarshal extra info'' (JSONError ''{invalid_json'')"
  note rules = unmarshalIfValid_decode_rules
  have a: "unmarshalIfValid example_unmarshalExtraInfo (Some ''[1, 2, 3]'') = Inl (InvalidJSON ''[1, 2, 3]'')"
    using rules[of example_unmarshalExtraInfo "''[1, 2, 3]''", THEN conjunct2, THEN conjunct2,
                THEN conjunct2, THEN conjunct1]
    by simp
  have b: "unmarshalIfValid example_unmarshalExtraInfo (Some ''{a:b}'')
             = Inr (Some (fmap_of_list [(''a'', ''b'')]))"
    using rules[of example_unmarshalExtraInfo "''{a:b}''", THEN conjunct2, THEN conjunct2,
                THEN conjunct2, THEN conjunct2, THEN conjunct1]
    by (simp add: example_unmarshalExtraInfo_def)
  have bad: "scanRows example_codec ?bad = Inl ?err"
    by (simp add: scanRows_def unmarshalIfValid_def HasPrefix_def example_codec_def
        example_unmarshalExtraInfo_def example_row_def)
  have tbl: "?db (t_table (example_table ''t'')) = Some [?good, ?bad]"
    by (simp add: single_table_def example_table_def)
  have ts: "col_timestamp ?good = 5" "col_timestamp ?bad = 6"
    by (simp_all add: example_row_def)
  have top: "order_by_timestamp_desc [?good, ?bad] = [?bad, ?good]"
    by (simp add: order_by_timestamp_desc_def ts)
  have g: "Get example_codec None (example_table ''t'') 0 ?db = Inl ?err"
    by (simp add: Get_def getEvents_def QueryContext_def tbl ts top bad)
  have l: "Latest example_codec None (example_table ''t'') ?db = Inl ?err"
    using rules[of _ _ example_codec ?bad ?db "example_table ''t''" _ _,
                THEN conjunct2, THEN conjunct2, THEN conjunct2, THEN conjunct2, THEN conjunct2,
                THEN conjunct2, THEN conjunct2, THEN conjunct2, THEN conjunct2, THEN conjunct1,
                rule_format, OF conjI[OF tbl conjI[OF top bad]]]
    by simp
  have par: "findParam example_codec (example_event 6 [] None None) = Inr None"
    by (simp add: findParam_def example_event_def)
  have cands: "filter (findWhere (example_event 6 [] None None) None) [?good, ?bad] = [] @ ?bad # []"
    by (simp add: findWhere_def example_event_def example_row_def)
  have pre: "\<forall>q\<in>set []. \<exists>stored. scanRows example_codec q = Inr stored
                \<and> \<not> compareEvent stored (example_event 6 [] None None)"
    by simp
  have f: "Find example_codec None (example_table ''t'') (example_event 6 [] None None) ?db = Inl ?err"
    using rules[of _ _ example_codec ?bad ?db "example_table ''t''" _ "example_event 6 [] None None",
                THEN conjunct2, THEN conjunct2, THEN conjunct2, THEN conjunct2, THEN conjunct2,
                THEN conjunct2, THEN conjunct2, THEN conjunct2, THEN conjunct1,
                rule_format, OF conjI[OF tbl conjI[OF par conjI[OF cands conjI[OF pre bad]]]]]
    by simp
  let ?tie = "example_row 6 None None None"
  have tbl2: "single_table (defaultTableName ''t'') ([?tie] @ [?bad]) (t_table (example_table ''t''))
                = Some ([?tie] @ [?bad])"
    by (simp add: single_table_def example_table_def)
  have le: "\<forall>q\<in>set [?tie]. col_timestamp q \<le> col_timestamp ?bad"
    by (simp add: example_row_def)
  have l2: "Latest example_codec None (example_table ''t'')
              (single_table (defaultTableName ''t'') [?tie, ?bad]) = Inl ?err"
    using rules[of _ _ example_codec ?bad "single_table (defaultTableName ''t'') ([?tie] @ [?bad])"
                  "example_table ''t''" _ _,
                THEN conjunct2, THEN conjunct2, THEN conjunct2, THEN conjunct2, THEN conjunct2,
                THEN conjunct2, THEN conjunct2, THEN conjunct2, THEN conjunct2, THEN conjunct2,
                rule_format, OF conjI[OF tbl2 conjI[OF le bad]]]
    by simp
  have tie: "scanRows example_codec ?tie = Inr (example_event 6 [] None None)"
    by (simp add: scanRows_def unmarshalIfValid_def example_event_def example_row_def)
  have le': "\<forall>q\<in>set [?bad]. col_timestamp q \<le> col_timestamp ?tie"
    by (simp add: example_row_def)
  have l3: "Latest example_codec None (example_table ''t'')
              (single_table (defaultTableName ''t'') [?bad, ?tie])
              = Inr (Some (example_event 6 [] None None))"
    using order_desc_snoc[of "[?bad]" ?tie, OF le']
    by (simp add: Latest_def lastEvent_def scanRow_def QueryRowContext_latest_def
        single_table_def example_table_def tie)
  from a b bad g l f l2 l3 show ?thesis by blast
qed

section \<open>Properties of the syncer\<close>

text \<open>
  Claim C8. One \<open>sync\<close> calls the scraper once. When the scrape returns an error, that
  error is the result, the store is untouched and the trace gains the scrape alone. When
  it succeeds, the store sees one \<open>Record\<close> call with all the scraped metrics, and the
  result of that call is the result of \<open>sync\<close>.
\<close>

theorem sync_scrape_then_record:
  "(\<forall>ms e scraper'. scrape scraper = ((ms, Some e), scraper') \<longrightarrow>
       sync scrape record (scraper, store, trace) = (Some e, scraper', store, trace @ [CallScrape]))
   \<and> (\<forall>ms scraper'. scrape scraper = ((ms, None), scraper') \<longrightarrow>
       sync scrape record (scraper, store, trace)
         = (fst (record ms store), scraper', snd (record ms store), trace @ [CallScrape, CallRecord ms]))
   \<and> (\<forall>r s' t' tr'. sync scrape record (scraper, store, trace) = (r, s', t', tr') \<longrightarrow>
         s' = snd (scrape scraper)
         \<and> length (filter (\<lambda>c. c = CallScrape) tr') = length (filter (\<lambda>c. c = CallScrape) trace) + 1)"
  by (auto simp: sync_def split: prod.splits option.splits)

theorem sync_scrape_then_record_witness:
  "mockScraper_Scrape \<lparr>metrics = [], err = Some ''scrape error'', scrapes = 0\<rparr>
     = (([], Some ''scrape error''), \<lparr>metrics = ([] :: string list), err = Some ''scrape error'', scrapes = 1\<rparr>)
   \<and> sync mockScraper_Scrape mockStore_Record
       (\<lparr>metrics = [], err = Some ''scrape error'', scrapes = 0\<rparr>,
        \<lparr>records = ([] :: string list), recordErr = None\<rparr>, [])
     = (Some ''scrape error'', \<lparr>metrics = [], err = Some ''scrape error'', scrapes = 1\<rparr>,
        \<lparr>records = [], recordErr = None\<rparr>, [CallScrape])
   \<and> mockScraper_Scrape \<lparr>metrics = [''metric1'', ''metric2''], err = (None :: string option), scrapes = 0\<rparr>
     = (([''metric1'', ''metric2''], None), \<lparr>metrics = [''metric1'', ''metric2''], err = None, scrapes = 1\<rparr>)
   \<and> sync mockScraper_Scrape mockStore_Record
       (\<lparr>metrics = [''metric1'', ''metric2''], err = None, scrapes = 0\<rparr>,
        \<lparr>records = [], recordErr = (None :: string option)\<rparr>, [])
     = (None, \<lparr>metrics = [''metric1'', ''metric2''], err = None, scrapes = 1\<rparr>,
        \<lparr>records = [''metric1'', ''metric2''], recordErr = None\<rparr>, [CallScrape, CallRecord [''metric1'', ''metric2'']])
   \<and> sync mockScraper_Scrape mockStore_Record
       (\<lparr>metrics = [''metric1'', ''metric2''], err = None, scrapes = 0\<rparr>,
        \<lparr>records = [], recordErr = Some ''store error''\<rparr>, [])
     = (Some ''store error'', \<lparr>metrics = [''metric1'', ''metric2''], err = None, scrapes = 1\<rparr>,
        \<lparr>records = [], recordErr = Some ''store error''\<rparr>, [CallScrape, CallRecord [''metric1'', ''metric2'']])"
proof -
  have e: "mockScraper_Scrape \<lparr>metrics = [], err = Some ''scrape error'', scrapes = 0\<rparr>
     = (([], Some ''scrape error''), \<lparr>metrics = ([] :: string list), err = Some ''scrape error'', scrapes = 1\<rparr>)"
    by (simp add: mockScraper_Scrape_def)
  have k: "mockScraper_Scrape \<lparr>metrics = [''metric1'', ''metric2''], err = (None :: string option), scrapes = 0\<rparr>
     = (([''metric1'', ''metric2''], None), \<lparr>metrics = [''metric1'', ''metric2''], err = None, scrapes = 1\<rparr>)"
    by (simp add: mockScraper_Scrape_def)
  note a = sync_scrape_then_record[of mockScraper_Scrape _ mockStore_Record,
             THEN conjunct1, rule_format, OF e]
  note b = sync_scrape_then_record[of mockScraper_Scrape _ mockStore_Record,
             THEN conjunct2, THEN conjunct1, rule_format, OF k]
  show ?thesis
    by (simp add: e k a b mockStore_Record_def)
qed

end
